theory Spec2Isabelle
  imports Complex_Main
begin

section \<open>Portfolio optimization service: a shallow embedding of main.py\<close>

text \<open>
  The service has one module, \<^verbatim>\<open>main.py\<close>, with the function
  \<^verbatim>\<open>optimize_markowitz_portfolio\<close> (statistics, problem construction, the call of
  the SLSQP solver, post-processing of the weights) and the endpoint
  \<^verbatim>\<open>optimize_portfolio\<close> (parameter validation, reading of the upload, validation
  of the matrix, translation of exceptions into HTTP errors).

  Conventions of the embedding:
  \<^item> The finite values of Python's floats are idealised as real numbers: arithmetic on
    them is exact. The special values nan and the two infinities are kept where the
    program can meet them: in the two parameters of a request and in the values of the
    risk constraint (type \<open>pyfloat\<close>; \<^verbatim>\<open>np.sqrt\<close> is nan at a negative argument),
    and as cells of the uploaded matrix (\<open>NaN\<close>, \<open>PosInf\<close>, \<open>NegInf\<close>).
  \<^item> An exception is a value of the type \<open>exn\<close>; a function that may raise returns
    \<open>exn + 'a\<close>, with \<open>Inl\<close> for the raised exception.
  \<^item> Logging, the processing of the uploaded file and the call of the solver are
    recorded, in order, in a list of events returned beside the result.
  \<^item> The libraries the module calls (pandas' CSV reader, pandas' nan-aware statistics,
    scipy's \<^verbatim>\<open>minimize\<close>) are a parameter \<open>lib\<close> of the embedding.
\<close>

subsection \<open>Strings and exceptions\<close>

text \<open>Strings are byte lists; the accented letters of the messages are their UTF-8 bytes.\<close>

definition a_acute :: string where
  "a_acute = [CHR 0xC3, CHR 0xA1]"

definition e_acute :: string where
  "e_acute = [CHR 0xC3, CHR 0xA9]"

definition i_acute :: string where
  "i_acute = [CHR 0xC3, CHR 0xAD]"

definition o_acute :: string where
  "o_acute = [CHR 0xC3, CHR 0xB3]"

text \<open>Decimal formatting of a natural number, as an f-string prints \<^verbatim>\<open>len(returns_df)\<close>.\<close>

function str_nat :: "nat \<Rightarrow> string" where
  "str_nat n =
     (if n < 10 then [''0123456789'' ! n]
      else str_nat (n div 10) @ [''0123456789'' ! (n mod 10)])"
  by pat_completeness auto
termination
  by (relation "measure id") auto

declare str_nat.simps [simp del]

text \<open>
  The exceptions that reach the handlers of the module. \<^verbatim>\<open>pd.errors.ParserError\<close> is a
  subclass of \<^verbatim>\<open>ValueError\<close>; \<open>ValueError\<close> stands for every other instance of
  \<^verbatim>\<open>ValueError\<close> (a decoding error of the upload among them); \<open>HTTPException\<close>
  is FastAPI's, a direct subclass of \<^verbatim>\<open>Exception\<close>.
\<close>

datatype exn =
    HTTPException nat string
  | ParserError string
  | ValueError string
  | ZeroDivisionError
  | OtherException string

text \<open>
  \<^verbatim>\<open>str(e)\<close>. For an \<open>HTTPException\<close> it is the method \<^verbatim>\<open>__str__\<close> of Starlette's
  class, \<^verbatim>\<open>f"{self.status_code}: {self.detail}"\<close>; for the built-in exceptions it is the
  message.
\<close>

fun str_exn :: "exn \<Rightarrow> string" where
  "str_exn (HTTPException status_code detail) = str_nat status_code @ '': '' @ detail"
| "str_exn (ParserError m) = m"
| "str_exn (ValueError m) = m"
| "str_exn ZeroDivisionError = ''division by zero''"
| "str_exn (OtherException m) = m"

subsection \<open>Floats\<close>

text \<open>
  A Python float: a finite value, nan, or an infinity. The form fields
  \<^verbatim>\<open>risk_level\<close> and \<^verbatim>\<open>max_weight\<close> are floats, and the texts \<^verbatim>\<open>nan\<close> and
  \<^verbatim>\<open>inf\<close> are read as such.
\<close>

datatype pyfloat = Finite real | Nan | PlusInf | MinusInf

text \<open>
  The comparisons \<^verbatim>\<open>a <= b\<close> and \<^verbatim>\<open>a > b\<close> of a float with a number: every
  comparison with nan is false.
\<close>

fun float_le :: "pyfloat \<Rightarrow> real \<Rightarrow> bool" where
  "float_le (Finite a) b = (a \<le> b)"
| "float_le Nan b = False"
| "float_le PlusInf b = False"
| "float_le MinusInf b = True"

fun float_gt :: "pyfloat \<Rightarrow> real \<Rightarrow> bool" where
  "float_gt (Finite a) b = (a > b)"
| "float_gt Nan b = False"
| "float_gt PlusInf b = True"
| "float_gt MinusInf b = False"

text \<open>The difference \<^verbatim>\<open>a - b\<close> of two floats.\<close>

fun float_sub :: "pyfloat \<Rightarrow> pyfloat \<Rightarrow> pyfloat" where
  "float_sub (Finite a) (Finite b) = Finite (a - b)"
| "float_sub Nan b = Nan"
| "float_sub a Nan = Nan"
| "float_sub PlusInf PlusInf = Nan"
| "float_sub MinusInf MinusInf = Nan"
| "float_sub PlusInf b = PlusInf"
| "float_sub MinusInf b = MinusInf"
| "float_sub a PlusInf = MinusInf"
| "float_sub a MinusInf = PlusInf"

subsection \<open>The data frame of returns\<close>

text \<open>
  A cell of the parsed CSV: a finite number, one of the three non-finite floats, or a
  string (a column that pandas could not read as numbers has dtype object).
\<close>

datatype cell = Num real | NaN | PosInf | NegInf | Str string

text \<open>
  \<^verbatim>\<open>returns_df\<close>: the column labels and the rows, in order. The index column is not
  part of the data. \<^verbatim>\<open>len(returns_df)\<close> is \<open>length (rows df)\<close>.
\<close>

record dataframe =
  columns :: "string list"
  rows :: "cell list list"

text \<open>\<^verbatim>\<open>np.isreal\<close> on one element: true of every float, nan and the infinities included.\<close>

fun np_isreal :: "cell \<Rightarrow> bool" where
  "np_isreal (Str s) = False"
| "np_isreal c = True"

text \<open>\<^verbatim>\<open>returns_df.applymap(np.isreal).all().all()\<close>\<close>

definition all_isreal :: "dataframe \<Rightarrow> bool" where
  "all_isreal df = list_all (list_all np_isreal) (rows df)"

text \<open>
  The finite cells and their values. \<open>cell_value\<close> is applied to finite cells only;
  its value elsewhere is never used.
\<close>

fun is_Num :: "cell \<Rightarrow> bool" where
  "is_Num (Num r) = True"
| "is_Num c = False"

fun cell_value :: "cell \<Rightarrow> real" where
  "cell_value (Num r) = r"
| "cell_value c = 0"

text \<open>
  A frame of finite numbers: every row has one cell per column and every cell is a
  finite number. pandas' frames are rectangular by construction.
\<close>

definition finite_frame :: "dataframe \<Rightarrow> bool" where
  "finite_frame df =
     list_all (\<lambda>r. length r = length (columns df) \<and> list_all is_Num r) (rows df)"

definition column_values :: "dataframe \<Rightarrow> nat \<Rightarrow> real list" where
  "column_values df j = map (\<lambda>r. cell_value (r ! j)) (rows df)"

subsection \<open>The libraries\<close>

text \<open>
  The type of a constraint: scipy reads \<open>Eq\<close> as \<open>fun(x) = 0\<close> and \<open>Ineq\<close> as
  \<open>fun(x) \<ge> 0\<close>.
\<close>

datatype ctype = Eq | Ineq

text \<open>One entry of the list \<^verbatim>\<open>constraints\<close>: \<^verbatim>\<open>{'type': ..., 'fun': ...}\<close>.\<close>

record constraint =
  ctype :: ctype
  cfun :: "real list \<Rightarrow> pyfloat"

text \<open>The arguments of the call of \<^verbatim>\<open>minimize\<close>.\<close>

record problem =
  objective_fun :: "real list \<Rightarrow> real"
  x0 :: "real list"
  solver_method :: string
  bounds :: "(pyfloat \<times> pyfloat) list"
  constraints :: "constraint list"
  disp :: bool
  maxiter :: nat

text \<open>The fields of scipy's \<^verbatim>\<open>OptimizeResult\<close> that the module reads.\<close>

record opt_result =
  res_success :: bool
  res_message :: string
  res_x :: "real list"

text \<open>
  The library functions: \<open>read_csv\<close> is the reading and decoding of the upload followed
  by \<^verbatim>\<open>pd.read_csv\<close>; \<open>nan_mean\<close> and \<open>nan_cov\<close> are \<^verbatim>\<open>DataFrame.mean\<close> and
  \<^verbatim>\<open>DataFrame.cov\<close> on a frame that is not a frame of finite numbers (pandas skips nan
  there); \<open>minimize\<close> is scipy's solver, which returns a result or raises.
\<close>

record lib =
  read_csv :: "string \<Rightarrow> exn + dataframe"
  nan_mean :: "dataframe \<Rightarrow> real list"
  nan_cov :: "dataframe \<Rightarrow> real list list"
  minimize :: "problem \<Rightarrow> exn + opt_result"

text \<open>What the program does besides returning: log records, file processing, solver calls.\<close>

datatype event =
    ReadFile string
  | LogInfo_Optimizing nat nat
  | LogWarning_OptimizationFailed string
  | LogWarning_SumNotClose real
  | LogError_InOptimization string
  | LogError_Unexpected string
  | SolverCall problem

fun solver_calls :: "event list \<Rightarrow> problem list" where
  "solver_calls [] = []"
| "solver_calls (SolverCall p # es) = p # solver_calls es"
| "solver_calls (e # es) = solver_calls es"

subsection \<open>numpy's arithmetic\<close>

definition np_sum :: "real list \<Rightarrow> real" where
  "np_sum xs = sum_list xs"

definition np_dot :: "real list \<Rightarrow> real list \<Rightarrow> real" where
  "np_dot u v = sum_list (map2 (*) u v)"

text \<open>\<^verbatim>\<open>np.dot(cov_matrix, weights)\<close>: the matrix, given by its rows, times the vector.\<close>

definition mat_vec :: "real list list \<Rightarrow> real list \<Rightarrow> real list" where
  "mat_vec m v = map (\<lambda>row. np_dot row v) m"

text \<open>\<^verbatim>\<open>np.sqrt\<close>: nan (with a runtime warning) at a negative argument.\<close>

definition np_sqrt :: "real \<Rightarrow> pyfloat" where
  "np_sqrt q = (if q < 0 then Nan else Finite (sqrt q))"

text \<open>\<^verbatim>\<open>np.rint\<close>: the nearest integer, a tie going to the even one.\<close>

definition rint :: "real \<Rightarrow> int" where
  "rint y =
     (let f = \<lfloor>y\<rfloor>; d = y - of_int f
      in if d < 1 / 2 then f else if 1 / 2 < d then f + 1 else if even f then f else f + 1)"

text \<open>
  \<^verbatim>\<open>np.round(v, 4)\<close>: scale by \<open>10\<^sup>4\<close>, round to the nearest integer, scale back.
  The model rounds the exact product. numpy rounds the double nearest to it, so for a
  weight within a rounding error of a tie (such as the double written 0.50015) the last
  digit of the two can differ.
\<close>

definition np_round4 :: "real \<Rightarrow> real" where
  "np_round4 v = of_int (rint (v * 10000)) / 10000"

subsection \<open>Statistics\<close>

definition mean_list :: "real list \<Rightarrow> real" where
  "mean_list xs = sum_list xs / real (length xs)"

text \<open>The sample covariance of two columns, with denominator rows - 1.\<close>

definition sample_cov :: "real list \<Rightarrow> real list \<Rightarrow> real" where
  "sample_cov xs ys =
     sum_list (map2 (\<lambda>a b. (a - mean_list xs) * (b - mean_list ys)) xs ys)
       / (real (length xs) - 1)"

text \<open>\<^verbatim>\<open>returns_df.mean()\<close>\<close>

definition df_mean :: "lib \<Rightarrow> dataframe \<Rightarrow> real list" where
  "df_mean l df =
     (if finite_frame df \<and> rows df \<noteq> []
      then map (\<lambda>j. mean_list (column_values df j)) [0..<length (columns df)]
      else nan_mean l df)"

text \<open>\<^verbatim>\<open>returns_df.cov()\<close>\<close>

definition df_cov :: "lib \<Rightarrow> dataframe \<Rightarrow> real list list" where
  "df_cov l df =
     (if finite_frame df \<and> 2 \<le> length (rows df)
      then map (\<lambda>i. map (\<lambda>j. sample_cov (column_values df i) (column_values df j))
                  [0..<length (columns df)]) [0..<length (columns df)]
      else nan_cov l df)"

subsection \<open>The optimization problem\<close>

text \<open>The nested function \<^verbatim>\<open>objective\<close>; \<open>mean_returns\<close> is the variable it closes over.\<close>

definition objective :: "real list \<Rightarrow> real list \<Rightarrow> real" where
  "objective mean_returns weights = - np_sum (map2 (*) mean_returns weights)"

text \<open>
  The nested function \<^verbatim>\<open>risk_constraint\<close>; it closes over \<open>cov_matrix\<close> and
  \<open>risk_level\<close>.
\<close>

definition portfolio_variance :: "real list list \<Rightarrow> real list \<Rightarrow> real" where
  "portfolio_variance cov_matrix weights = np_dot weights (mat_vec cov_matrix weights)"

definition risk_constraint :: "real list list \<Rightarrow> pyfloat \<Rightarrow> real list \<Rightarrow> pyfloat" where
  "risk_constraint cov_matrix risk_level weights =
     (let portfolio_volatility = np_sqrt (portfolio_variance cov_matrix weights)
      in float_sub risk_level portfolio_volatility)"

text \<open>The lambda of the equality constraint: \<^verbatim>\<open>np.sum(x) - 1\<close>.\<close>

definition sum_constraint :: "real list \<Rightarrow> pyfloat" where
  "sum_constraint v = Finite (np_sum v - 1)"

text \<open>
  What lines 55 to 75 hand to \<^verbatim>\<open>minimize\<close>. \<open>n_assets\<close> is not zero here: the
  division \<^verbatim>\<open>1/n_assets\<close> has been evaluated.
\<close>

definition markowitz_problem ::
  "real list \<Rightarrow> real list list \<Rightarrow> nat \<Rightarrow> pyfloat \<Rightarrow> pyfloat \<Rightarrow> problem" where
  "markowitz_problem mean_returns cov_matrix n_assets risk_level max_weight =
     \<lparr> objective_fun = objective mean_returns,
       x0 = replicate n_assets (1 / real n_assets),
       solver_method = ''SLSQP'',
       bounds = replicate n_assets (Finite 0, max_weight),
       constraints =
         [\<lparr> ctype = Eq, cfun = sum_constraint \<rparr>,
          \<lparr> ctype = Ineq, cfun = risk_constraint cov_matrix risk_level \<rparr>],
       disp = False,
       maxiter = 1000 \<rparr>"

subsection \<open>The dictionary of weights\<close>

text \<open>
  A Python dict keeps insertion order; storing under a key that is present replaces the
  value in place.
\<close>

fun dict_set :: "'k \<Rightarrow> 'v \<Rightarrow> ('k \<times> 'v) list \<Rightarrow> ('k \<times> 'v) list" where
  "dict_set k v [] = [(k, v)]"
| "dict_set k v (p # ps) = (if fst p = k then (k, v) # ps else p # dict_set k v ps)"

definition dict_of :: "('k \<times> 'v) list \<Rightarrow> ('k \<times> 'v) list" where
  "dict_of ps = foldl (\<lambda>d (k, v). dict_set k v d) [] ps"

text \<open>
  The comprehension of lines 84 to 86: the tickers zipped with the rounded weights, the
  pairs whose rounded weight is greater than 0.0001 stored in order.
\<close>

definition rounded_portfolio :: "string list \<Rightarrow> real list \<Rightarrow> (string \<times> real) list" where
  "rounded_portfolio tickers optimal_weights =
     dict_of (filter (\<lambda>(ticker, weight). weight > 1 / 10000)
       (zip tickers (map np_round4 optimal_weights)))"

subsection \<open>optimize_markowitz_portfolio\<close>

text \<open>
  The body of the \<^verbatim>\<open>try\<close> of lines 67 to 93: the call of the solver, the test of
  \<^verbatim>\<open>result.success\<close>, and the post-processing.
\<close>

definition markowitz_try ::
  "lib \<Rightarrow> dataframe \<Rightarrow> problem \<Rightarrow> event list \<times> (exn + (string \<times> real) list)" where
  "markowitz_try l returns_df p =
     (case minimize l p of
        Inl e \<Rightarrow> ([SolverCall p], Inl e)
      | Inr result \<Rightarrow>
          if \<not> res_success result
          then ([SolverCall p, LogWarning_OptimizationFailed (res_message result)],
                Inl (ValueError
                  (''Portfolio optimization did not converge: '' @ res_message result)))
          else
            let optimal_weights = res_x result;
                optimal_portfolio = rounded_portfolio (columns returns_df) optimal_weights;
                weight_sum = sum_list (map snd optimal_portfolio)
            in (SolverCall p #
                  (if \<bar>weight_sum - 1\<bar> > 1 / 100
                   then [LogWarning_SumNotClose weight_sum] else []),
                Inr optimal_portfolio))"

text \<open>
  The function. With no column, \<^verbatim>\<open>1/n_assets\<close> raises before the \<^verbatim>\<open>try\<close>. The
  handler of the \<^verbatim>\<open>try\<close> logs every exception and raises a \<^verbatim>\<open>ValueError\<close> in its
  place.
\<close>

definition optimize_markowitz_portfolio ::
  "lib \<Rightarrow> dataframe \<Rightarrow> pyfloat \<Rightarrow> pyfloat \<Rightarrow>
     event list \<times> (exn + (string \<times> real) list)" where
  "optimize_markowitz_portfolio l returns_df risk_level max_weight =
     (let mean_returns = df_mean l returns_df;
          cov_matrix = df_cov l returns_df;
          n_assets = length (columns returns_df)
      in if n_assets = 0 then ([], Inl ZeroDivisionError)
         else
           case markowitz_try l returns_df
                  (markowitz_problem mean_returns cov_matrix n_assets risk_level max_weight) of
             (tr, Inl e) \<Rightarrow>
               (tr @ [LogError_InOptimization (str_exn e)],
                Inl (ValueError (''Failed to optimize portfolio: '' @ str_exn e)))
           | (tr, Inr optimal_portfolio) \<Rightarrow> (tr, Inr optimal_portfolio))"

text \<open>What one weight of the solver adds to the sum of the returned dictionary.\<close>

definition kept_weight :: "real \<Rightarrow> real" where
  "kept_weight v = (if 1 / 10000 < np_round4 v then np_round4 v else 0)"

text \<open>The problem the function builds from a frame and the two parameters.\<close>

definition problem_of :: "lib \<Rightarrow> dataframe \<Rightarrow> pyfloat \<Rightarrow> pyfloat \<Rightarrow> problem" where
  "problem_of l returns_df risk_level max_weight =
     markowitz_problem (df_mean l returns_df) (df_cov l returns_df)
       (length (columns returns_df)) risk_level max_weight"

subsection \<open>The endpoint optimize_portfolio\<close>

definition detail_risk :: string where
  "detail_risk = ''El nivel de riesgo debe ser positivo''"

definition detail_weight :: string where
  "detail_weight = ''El peso m'' @ a_acute @ ''ximo debe estar entre 0 y 1''"

definition detail_numeric :: string where
  "detail_numeric = ''El archivo debe contener solo valores num'' @ e_acute @ ''ricos''"

definition detail_rows :: "nat \<Rightarrow> string" where
  "detail_rows n =
     ''Se requieren al menos 30 d'' @ i_acute @ ''as de datos, se recibieron '' @ str_nat n"

definition detail_parse :: string where
  "detail_parse = ''Error al parsear el archivo CSV''"

text \<open>
  The body of the \<^verbatim>\<open>try\<close> of lines 123 to 145. The response
  \<^verbatim>\<open>{"optimal_portfolio": optimal_portfolio}\<close> is represented by the dictionary.
\<close>

definition optimize_portfolio_try ::
  "lib \<Rightarrow> string \<Rightarrow> pyfloat \<Rightarrow> pyfloat \<Rightarrow>
     event list \<times> (exn + (string \<times> real) list)" where
  "optimize_portfolio_try l file risk_level max_weight =
     (case read_csv l file of
        Inl e \<Rightarrow> ([ReadFile file], Inl e)
      | Inr returns_df \<Rightarrow>
          if \<not> all_isreal returns_df
          then ([ReadFile file], Inl (HTTPException 400 detail_numeric))
          else if length (rows returns_df) < 30
          then ([ReadFile file],
                Inl (HTTPException 400 (detail_rows (length (rows returns_df)))))
          else
            case optimize_markowitz_portfolio l returns_df risk_level max_weight of
              (tr, r) \<Rightarrow>
                (ReadFile file #
                 LogInfo_Optimizing (length (columns returns_df)) (length (rows returns_df)) #
                 tr, r))"

text \<open>
  The three handlers, in the order of the source: \<^verbatim>\<open>ParserError\<close>, \<^verbatim>\<open>ValueError\<close>,
  \<^verbatim>\<open>Exception\<close>. An \<open>HTTPException\<close> is an instance of the last only.
\<close>

fun handle_exception :: "event list \<Rightarrow> exn \<Rightarrow> event list \<times> (exn + (string \<times> real) list)" where
  "handle_exception tr (ParserError m) = (tr, Inl (HTTPException 400 detail_parse))"
| "handle_exception tr (ValueError m) = (tr, Inl (HTTPException 400 (str_exn (ValueError m))))"
| "handle_exception tr e =
     (tr @ [LogError_Unexpected (str_exn e)],
      Inl (HTTPException 500 (''Error en el servidor: '' @ str_exn e)))"

definition optimize_portfolio ::
  "lib \<Rightarrow> string \<Rightarrow> pyfloat \<Rightarrow> pyfloat \<Rightarrow>
     event list \<times> (exn + (string \<times> real) list)" where
  "optimize_portfolio l file risk_level max_weight =
     (if float_le risk_level 0 then ([], Inl (HTTPException 400 detail_risk))
      else if float_le max_weight 0 \<or> float_gt max_weight 1
      then ([], Inl (HTTPException 400 detail_weight))
      else
        case optimize_portfolio_try l file risk_level max_weight of
          (tr, Inl e) \<Rightarrow> handle_exception tr e
        | (tr, Inr optimal_portfolio) \<Rightarrow> (tr, Inr optimal_portfolio))"

text \<open>The endpoint \<^verbatim>\<open>root\<close>.\<close>

definition root :: string where
  "root = ''Bienvenido al servicio de optimizaci'' @ o_acute @ ''n de portafolios''"

subsection \<open>Example data\<close>

text \<open>
  Frames used to run the definitions: 30 days of two assets with constant returns, the
  same with the means exchanged, 30 days of a single asset, the same with one empty
  cell (which pandas reads as nan), ten days of a column that holds a word (pandas then
  keeps every cell of the column as text), and ten days of a single asset.
\<close>

definition frame_AB :: dataframe where
  "frame_AB = \<lparr> columns = [''A'', ''B''], rows = replicate 30 [Num (2 / 100), Num (1 / 100)] \<rparr>"

definition frame_BA :: dataframe where
  "frame_BA = \<lparr> columns = [''A'', ''B''], rows = replicate 30 [Num (1 / 100), Num (2 / 100)] \<rparr>"

definition frame_A :: dataframe where
  "frame_A = \<lparr> columns = [''A''], rows = replicate 30 [Num (1 / 100)] \<rparr>"

definition frame_nan :: dataframe where
  "frame_nan = \<lparr> columns = [''A''], rows = [NaN] # replicate 29 [Num (1 / 100)] \<rparr>"

definition frame_text :: dataframe where
  "frame_text = \<lparr> columns = [''A''], rows = [Str ''abc''] # replicate 9 [Str ''0.01''] \<rparr>"

definition frame_short :: dataframe where
  "frame_short = \<lparr> columns = [''A''], rows = replicate 10 [Num (1 / 100)] \<rparr>"

text \<open>
  Thirty days of two assets with gaps: both have a return on the first two days, with
  opposite signs; on the other days one of the two cells is empty (nan for pandas) and
  the other return is 0.
\<close>

definition frame_gaps :: dataframe where
  "frame_gaps =
     \<lparr> columns = [''A'', ''B''],
       rows = [[Num (1 / 10), Num (- (1 / 10))], [Num (- (1 / 10)), Num (1 / 10)]]
              @ replicate 14 [Num 0, NaN] @ replicate 14 [NaN, Num 0] \<rparr>"

text \<open>
  Thirty days of \<open>n\<close> assets \<open>T0\<close>, \<open>T1\<close>, \<open>\<dots>\<close> that all return 1 per cent every
  day.
\<close>

definition asset_name :: "nat \<Rightarrow> string" where
  "asset_name i = ''T'' @ str_nat i"

definition frame_uniform :: "nat \<Rightarrow> dataframe" where
  "frame_uniform n =
     \<lparr> columns = map asset_name [0..<n], rows = replicate 30 (replicate n (Num (1 / 100))) \<rparr>"

text \<open>The value of a string of decimal digits.\<close>

definition nat_of_digits :: "string \<Rightarrow> nat" where
  "nat_of_digits ds = foldl (\<lambda>a c. 10 * a + (of_char c - 48)) 0 ds"

text \<open>Results of the solver: a converged one at a given point, and a failed one.\<close>

definition converged :: "real list \<Rightarrow> opt_result" where
  "converged v =
     \<lparr> res_success = True, res_message = ''Optimization terminated successfully'',
       res_x = v \<rparr>"

definition not_converged :: "real list \<Rightarrow> opt_result" where
  "not_converged v =
     \<lparr> res_success = False, res_message = ''Iteration limit reached'', res_x = v \<rparr>"

text \<open>
  pandas on a frame with nan cells, for the example library: the mean of a column over
  its finite cells, and the covariance of two columns over the rows where both are
  finite.
\<close>

definition skipna_mean :: "dataframe \<Rightarrow> real list" where
  "skipna_mean df =
     map (\<lambda>j. mean_list (map cell_value (filter is_Num (map (\<lambda>r. r ! j) (rows df)))))
       [0..<length (columns df)]"

definition pairwise_cov :: "dataframe \<Rightarrow> real list list" where
  "pairwise_cov df =
     map (\<lambda>i. map (\<lambda>j.
        (let rs = filter (\<lambda>r. is_Num (r ! i) \<and> is_Num (r ! j)) (rows df)
         in sample_cov (map (\<lambda>r. cell_value (r ! i)) rs) (map (\<lambda>r. cell_value (r ! j)) rs)))
        [0..<length (columns df)]) [0..<length (columns df)]"

text \<open>A library whose reader returns the given frame and whose solver the given result.\<close>

definition example_lib :: "dataframe \<Rightarrow> opt_result \<Rightarrow> lib" where
  "example_lib df r =
     \<lparr> read_csv = (\<lambda>content. Inr df), nan_mean = skipna_mean, nan_cov = pairwise_cov,
       minimize = (\<lambda>p. Inr r) \<rparr>"

text \<open>
  A library whose solver finds nothing to improve and returns the initial point, as SLSQP
  does when no feasible direction lowers the objective by more than its tolerance.
\<close>

definition stays_at_x0 :: "problem \<Rightarrow> exn + opt_result" where
  "stays_at_x0 p = Inr (converged (x0 p))"

definition example_lib_x0 :: "dataframe \<Rightarrow> lib" where
  "example_lib_x0 df =
     \<lparr> read_csv = (\<lambda>content. Inr df), nan_mean = skipna_mean, nan_cov = pairwise_cov,
       minimize = stays_at_x0 \<rparr>"

section \<open>Properties\<close>

subsection \<open>Comparisons of floats and the first event of the endpoint\<close>






subsection \<open>The endpoint, step by step\<close>

lemma str_nat_400: "str_nat 400 = ''400''"
  by (simp add: str_nat.simps)

lemma str_exn_400: "str_exn (HTTPException 400 d) = ''400: '' @ d"
  by (simp add: str_nat_400)

lemma np_isreal_iff: "np_isreal c \<longleftrightarrow> (\<forall>s. c \<noteq> Str s)"
  by (cases c) simp_all

lemma all_isreal_iff: "all_isreal df \<longleftrightarrow> (\<forall>s. Str s \<notin> set (concat (rows df)))"
  by (auto simp add: all_isreal_def list_all_iff np_isreal_iff)

lemma try_non_numeric:
  assumes "read_csv l file = Inr df" and "\<not> all_isreal df"
  shows "optimize_portfolio_try l file risk_level max_weight
           = ([ReadFile file], Inl (HTTPException 400 detail_numeric))"
  using assms by (simp add: optimize_portfolio_try_def)

lemma try_too_short:
  assumes "read_csv l file = Inr df" and "all_isreal df" and "length (rows df) < 30"
  shows "optimize_portfolio_try l file risk_level max_weight
           = ([ReadFile file], Inl (HTTPException 400 (detail_rows (length (rows df)))))"
  using assms by (simp add: optimize_portfolio_try_def)

lemma try_optimizes:
  assumes "read_csv l file = Inr df" and "all_isreal df" and "30 \<le> length (rows df)"
  shows "optimize_portfolio_try l file risk_level max_weight
           = (ReadFile file # LogInfo_Optimizing (length (columns df)) (length (rows df)) #
                fst (optimize_markowitz_portfolio l df risk_level max_weight),
              snd (optimize_markowitz_portfolio l df risk_level max_weight))"
  using assms by (simp add: optimize_portfolio_try_def split: prod.split)

lemma endpoint_valid_parameters:
  assumes "\<not> float_le risk_level 0" and "\<not> float_le max_weight 0"
    and "\<not> float_gt max_weight 1"
  shows "optimize_portfolio l file risk_level max_weight
           = (case optimize_portfolio_try l file risk_level max_weight of
                (tr, Inl e) \<Rightarrow> handle_exception tr e
              | (tr, Inr optimal_portfolio) \<Rightarrow> (tr, Inr optimal_portfolio))"
  using assms by (simp add: optimize_portfolio_def)

lemma endpoint_http_exception:
  assumes "\<not> float_le risk_level 0" and "\<not> float_le max_weight 0"
    and "\<not> float_gt max_weight 1"
    and "optimize_portfolio_try l file risk_level max_weight
           = (tr, Inl (HTTPException code detail))"
  shows "optimize_portfolio l file risk_level max_weight
           = (tr @ [LogError_Unexpected (str_nat code @ '': '' @ detail)],
              Inl (HTTPException 500 (''Error en el servidor: '' @ str_nat code @ '': '' @ detail)))"
  using assms by (simp add: endpoint_valid_parameters)

lemma frame_text_facts:
  "\<not> all_isreal frame_text" "length (rows frame_text) = 10"
  "Str ''abc'' \<in> set (concat (rows frame_text))"
  by (simp_all add: frame_text_def all_isreal_def)

lemma frame_short_facts: "all_isreal frame_short" "length (rows frame_short) = 10"
  by (simp_all add: frame_short_def all_isreal_def list_all_iff)

lemma example_lib_read_csv [simp]: "read_csv (example_lib df r) file = Inr df"
  by (simp add: example_lib_def)

lemma example_lib_minimize [simp]: "minimize (example_lib df r) p = Inr r"
  by (simp add: example_lib_def)

subsection \<open>Exceptions raised inside the endpoint's try block\<close>

text \<open>
  Claim C10. With parameters that pass the validation, an \<open>HTTPException\<close> raised in
  the body of the \<^verbatim>\<open>try\<close> does not leave the endpoint as it is: the last handler
  catches it, logs it, and raises a status-500 error whose detail is
  \<open>''Error en el servidor: ''\<close> followed by the status and the detail of the
  original. This is the fate of the two checks of the matrix: the check for
  non-numeric cells and the check of the number of rows both end as status 500, not 400.
\<close>

theorem C10_http_exception_becomes_500:
  assumes "\<not> float_le risk_level 0" and "\<not> float_le max_weight 0"
    and "\<not> float_gt max_weight 1"
  shows
    "(optimize_portfolio_try l file risk_level max_weight
        = (tr, Inl (HTTPException code detail)) \<longrightarrow>
      optimize_portfolio l file risk_level max_weight
        = (tr @ [LogError_Unexpected (str_nat code @ '': '' @ detail)],
           Inl (HTTPException 500
             (''Error en el servidor: '' @ str_nat code @ '': '' @ detail)))) \<and>
     (read_csv l file = Inr df \<and> \<not> all_isreal df \<longrightarrow>
      optimize_portfolio_try l file risk_level max_weight
        = ([ReadFile file], Inl (HTTPException 400 detail_numeric)) \<and>
      optimize_portfolio l file risk_level max_weight
        = ([ReadFile file, LogError_Unexpected (''400: '' @ detail_numeric)],
           Inl (HTTPException 500 (''Error en el servidor: 400: '' @ detail_numeric)))) \<and>
     (read_csv l file = Inr df \<and> all_isreal df \<and> length (rows df) < 30 \<longrightarrow>
      optimize_portfolio_try l file risk_level max_weight
        = ([ReadFile file], Inl (HTTPException 400 (detail_rows (length (rows df))))) \<and>
      optimize_portfolio l file risk_level max_weight
        = ([ReadFile file,
            LogError_Unexpected (''400: '' @ detail_rows (length (rows df)))],
           Inl (HTTPException 500
             (''Error en el servidor: 400: '' @ detail_rows (length (rows df))))))"
proof (intro conjI impI)
  assume "optimize_portfolio_try l file risk_level max_weight
            = (tr, Inl (HTTPException code detail))"
  with assms show "optimize_portfolio l file risk_level max_weight
        = (tr @ [LogError_Unexpected (str_nat code @ '': '' @ detail)],
           Inl (HTTPException 500
             (''Error en el servidor: '' @ str_nat code @ '': '' @ detail)))"
    by (rule endpoint_http_exception)
next
  assume a: "read_csv l file = Inr df \<and> \<not> all_isreal df"
  then show t: "optimize_portfolio_try l file risk_level max_weight
        = ([ReadFile file], Inl (HTTPException 400 detail_numeric))"
    by (simp add: try_non_numeric)
  from endpoint_http_exception [OF assms t]
  show "optimize_portfolio l file risk_level max_weight
        = ([ReadFile file, LogError_Unexpected (''400: '' @ detail_numeric)],
           Inl (HTTPException 500 (''Error en el servidor: 400: '' @ detail_numeric)))"
    by (simp add: str_nat_400)
next
  assume a: "read_csv l file = Inr df \<and> all_isreal df \<and> length (rows df) < 30"
  then show t: "optimize_portfolio_try l file risk_level max_weight
        = ([ReadFile file], Inl (HTTPException 400 (detail_rows (length (rows df)))))"
    by (simp add: try_too_short)
  from endpoint_http_exception [OF assms t]
  show "optimize_portfolio l file risk_level max_weight
        = ([ReadFile file,
            LogError_Unexpected (''400: '' @ detail_rows (length (rows df)))],
           Inl (HTTPException 500
             (''Error en el servidor: 400: '' @ detail_rows (length (rows df)))))"
    by (simp add: str_nat_400)
qed

theorem C10_http_exception_becomes_500_witness:
  "\<not> float_le (Finite 1) 0 \<and> \<not> float_gt (Finite 1) 1 \<and>
   optimize_portfolio_try (example_lib frame_text (converged [1])) ''csv'' (Finite 1) (Finite 1)
     = ([ReadFile ''csv''], Inl (HTTPException 400 detail_numeric)) \<and>
   optimize_portfolio (example_lib frame_text (converged [1])) ''csv'' (Finite 1) (Finite 1)
     = ([ReadFile ''csv'', LogError_Unexpected (''400: '' @ detail_numeric)],
        Inl (HTTPException 500 (''Error en el servidor: 400: '' @ detail_numeric))) \<and>
   read_csv (example_lib frame_short (converged [1])) ''csv'' = Inr frame_short \<and>
   all_isreal frame_short \<and> length (rows frame_short) < 30 \<and>
   optimize_portfolio (example_lib frame_short (converged [1])) ''csv'' (Finite 1) (Finite 1)
     = ([ReadFile ''csv'', LogError_Unexpected (''400: '' @ detail_rows 10)],
        Inl (HTTPException 500 (''Error en el servidor: 400: '' @ detail_rows 10)))"
  using C10_http_exception_becomes_500
      [of "Finite 1" "Finite 1" "example_lib frame_text (converged [1])" "''csv''" "[ReadFile ''csv'']" 400
        detail_numeric frame_text]
    C10_http_exception_becomes_500
      [of "Finite 1" "Finite 1" "example_lib frame_short (converged [1])" "''csv''" "[]" 0 "[]" frame_short]
  by (simp add: frame_text_facts frame_short_facts str_nat_400)

subsection \<open>Too few rows\<close>

lemma detail_rows_neq_numeric: "detail_rows n \<noteq> detail_numeric"
  by (simp add: detail_rows_def detail_numeric_def)

lemma solver_calls_append: "solver_calls (es @ fs) = solver_calls es @ solver_calls fs"
  by (induction es rule: solver_calls.induct) simp_all

text \<open>
  Claim C6, as written, fails on a matrix of ten rows of which one cell is text: the
  cells are checked before the rows are counted, so the failure is the one of the
  non-numeric check and its message carries no row count.
\<close>

theorem C6_short_text_matrix_counterexample:
  "length (rows frame_text) < 30 \<and>
   optimize_portfolio_try (example_lib frame_text (converged [1])) ''csv'' (Finite 1) (Finite 1)
     = ([ReadFile ''csv''], Inl (HTTPException 400 detail_numeric)) \<and>
   snd (optimize_portfolio (example_lib frame_text (converged [1])) ''csv'' (Finite 1) (Finite 1))
     = Inl (HTTPException 500 (''Error en el servidor: 400: '' @ detail_numeric)) \<and>
   detail_numeric \<noteq> detail_rows 10"
proof -
  have t: "optimize_portfolio_try (example_lib frame_text (converged [1])) ''csv'' (Finite 1) (Finite 1)
     = ([ReadFile ''csv''], Inl (HTTPException 400 detail_numeric))"
    by (simp add: try_non_numeric frame_text_facts)
  have "snd (optimize_portfolio (example_lib frame_text (converged [1])) ''csv'' (Finite 1) (Finite 1))
     = Inl (HTTPException 500 (''Error en el servidor: 400: '' @ detail_numeric))"
    by (simp add: endpoint_valid_parameters t str_nat_400)
  with t show ?thesis
    using detail_rows_neq_numeric [of 10] by (simp add: frame_text_facts)
qed

text \<open>
  Claim C6 (amended): for a request whose parameters pass the validation and whose
  uploaded matrix has numeric cells only and fewer than 30 rows, the row check raises
  its error, whose detail ends with the number of rows received; the endpoint fails
  with an error whose detail ends with that detail, and the solver is never called.
\<close>

theorem C6_insufficient_rows:
  assumes "\<not> float_le risk_level 0" and "\<not> float_le max_weight 0"
    and "\<not> float_gt max_weight 1"
    and "read_csv l file = Inr df" and "all_isreal df" and "length (rows df) < 30"
  shows
    "optimize_portfolio_try l file risk_level max_weight
       = ([ReadFile file], Inl (HTTPException 400 (detail_rows (length (rows df))))) \<and>
     (\<exists>pre. detail_rows (length (rows df)) = pre @ str_nat (length (rows df))) \<and>
     (\<exists>code pre. snd (optimize_portfolio l file risk_level max_weight)
        = Inl (HTTPException code (pre @ detail_rows (length (rows df))))) \<and>
     solver_calls (fst (optimize_portfolio l file risk_level max_weight)) = []"
proof -
  have t: "optimize_portfolio_try l file risk_level max_weight
       = ([ReadFile file], Inl (HTTPException 400 (detail_rows (length (rows df)))))"
    using assms by (simp add: try_too_short)
  have e: "optimize_portfolio l file risk_level max_weight
       = ([ReadFile file] @
            [LogError_Unexpected (str_nat 400 @ '': '' @ detail_rows (length (rows df)))],
          Inl (HTTPException 500
            (''Error en el servidor: '' @ str_nat 400 @ '': '' @ detail_rows (length (rows df)))))"
    using assms(1-3) t by (rule endpoint_http_exception)
  have "\<exists>pre. detail_rows (length (rows df)) = pre @ str_nat (length (rows df))"
    unfolding detail_rows_def by (metis append.assoc)
  moreover have "\<exists>code pre. snd (optimize_portfolio l file risk_level max_weight)
        = Inl (HTTPException code (pre @ detail_rows (length (rows df))))"
    unfolding e by (metis snd_conv append.assoc)
  moreover have "solver_calls (fst (optimize_portfolio l file risk_level max_weight)) = []"
    unfolding e by simp
  ultimately show ?thesis using t by simp
qed

theorem C6_insufficient_rows_witness:
  "\<not> float_le (Finite 1) 0 \<and> \<not> float_gt (Finite 1) 1 \<and>
   read_csv (example_lib frame_short (converged [1])) ''csv'' = Inr frame_short \<and>
   all_isreal frame_short \<and> length (rows frame_short) < 30 \<and>
   optimize_portfolio_try (example_lib frame_short (converged [1])) ''csv'' (Finite 1) (Finite 1)
     = ([ReadFile ''csv''], Inl (HTTPException 400 (detail_rows 10))) \<and>
   solver_calls (fst (optimize_portfolio (example_lib frame_short (converged [1])) ''csv'' (Finite 1) (Finite 1)))
     = []"
  using C6_insufficient_rows
      [of "Finite 1" "Finite 1" "example_lib frame_short (converged [1])" "''csv''" frame_short]
  by (simp add: frame_short_facts)

subsection \<open>optimize_markowitz_portfolio, case by case\<close>

lemma markowitz_no_columns:
  assumes "columns df = []"
  shows "optimize_markowitz_portfolio l df risk_level max_weight = ([], Inl ZeroDivisionError)"
  using assms by (simp add: optimize_markowitz_portfolio_def)

lemma markowitz_solver_raises:
  assumes "columns df \<noteq> []"
    and "minimize l (problem_of l df risk_level max_weight) = Inl e"
  shows "optimize_markowitz_portfolio l df risk_level max_weight
           = ([SolverCall (problem_of l df risk_level max_weight),
               LogError_InOptimization (str_exn e)],
              Inl (ValueError (''Failed to optimize portfolio: '' @ str_exn e)))"
  using assms
  by (simp add: optimize_markowitz_portfolio_def markowitz_try_def problem_of_def)

lemma markowitz_not_converged:
  assumes "columns df \<noteq> []"
    and "minimize l (problem_of l df risk_level max_weight) = Inr r"
    and "\<not> res_success r"
  shows "optimize_markowitz_portfolio l df risk_level max_weight
           = ([SolverCall (problem_of l df risk_level max_weight),
               LogWarning_OptimizationFailed (res_message r),
               LogError_InOptimization
                 (''Portfolio optimization did not converge: '' @ res_message r)],
              Inl (ValueError
                (''Failed to optimize portfolio: Portfolio optimization did not converge: ''
                   @ res_message r)))"
  using assms
  by (simp add: optimize_markowitz_portfolio_def markowitz_try_def problem_of_def)

lemma markowitz_converged:
  assumes "columns df \<noteq> []"
    and "minimize l (problem_of l df risk_level max_weight) = Inr r"
    and "res_success r"
  shows "optimize_markowitz_portfolio l df risk_level max_weight
           = (SolverCall (problem_of l df risk_level max_weight) #
                (if \<bar>sum_list (map snd (rounded_portfolio (columns df) (res_x r))) - 1\<bar> > 1 / 100
                 then [LogWarning_SumNotClose
                         (sum_list (map snd (rounded_portfolio (columns df) (res_x r))))]
                 else []),
              Inr (rounded_portfolio (columns df) (res_x r)))"
  using assms
  by (simp add: optimize_markowitz_portfolio_def markowitz_try_def problem_of_def Let_def)

lemma markowitz_solver_calls:
  assumes "columns df \<noteq> []"
  shows "solver_calls (fst (optimize_markowitz_portfolio l df risk_level max_weight))
           = [problem_of l df risk_level max_weight]"
proof (cases "minimize l (problem_of l df risk_level max_weight)")
  case (Inl e)
  with assms show ?thesis by (simp add: markowitz_solver_raises)
next
  case (Inr r)
  with assms show ?thesis
    by (cases "res_success r") (simp_all add: markowitz_not_converged markowitz_converged)
qed

lemma handle_exception_solver_calls:
  "solver_calls (fst (handle_exception tr e)) = solver_calls tr"
  by (cases e) (simp_all add: solver_calls_append)

lemma endpoint_solver_calls:
  assumes "\<not> float_le risk_level 0" and "\<not> float_le max_weight 0"
    and "\<not> float_gt max_weight 1"
    and "read_csv l file = Inr df" and "all_isreal df" and "30 \<le> length (rows df)"
    and "columns df \<noteq> []"
  shows "solver_calls (fst (optimize_portfolio l file risk_level max_weight))
           = [problem_of l df risk_level max_weight]"
proof -
  have "solver_calls (fst (optimize_portfolio_try l file risk_level max_weight))
          = [problem_of l df risk_level max_weight]"
    using assms by (simp add: try_optimizes markowitz_solver_calls)
  then show ?thesis
    using assms(1-3)
    by (cases "optimize_portfolio_try l file risk_level max_weight")
      (auto simp add: endpoint_valid_parameters handle_exception_solver_calls
        split: sum.split)
qed

lemma endpoint_result:
  assumes "\<not> float_le risk_level 0" and "\<not> float_le max_weight 0"
    and "\<not> float_gt max_weight 1"
    and "read_csv l file = Inr df" and "all_isreal df" and "30 \<le> length (rows df)"
  shows "snd (optimize_portfolio l file risk_level max_weight)
           = (case snd (optimize_markowitz_portfolio l df risk_level max_weight) of
                Inl e \<Rightarrow>
                  snd (handle_exception
                    (ReadFile file #
                     LogInfo_Optimizing (length (columns df)) (length (rows df)) #
                     fst (optimize_markowitz_portfolio l df risk_level max_weight)) e)
              | Inr optimal_portfolio \<Rightarrow> Inr optimal_portfolio)"
  using assms
  by (simp add: endpoint_valid_parameters try_optimizes split: sum.split)

subsection \<open>A solver that does not converge\<close>

text \<open>
  Claim C3. When the request passes every validation and the solver returns a result
  whose \<open>success\<close> is false, the function raises a \<^verbatim>\<open>ValueError\<close> whose message
  is the fixed text \<open>Failed to optimize portfolio: Portfolio optimization did not
  converge: \<close> followed by the solver's message; the endpoint turns it into a status-400
  error with the same text. The failure is logged, and no dictionary of weights is
  returned, whatever point the solver's result holds.
\<close>

theorem C3_non_convergence_is_a_failure:
  assumes "\<not> float_le risk_level 0" and "\<not> float_le max_weight 0"
    and "\<not> float_gt max_weight 1"
    and "read_csv l file = Inr df" and "all_isreal df" and "30 \<le> length (rows df)"
    and "columns df \<noteq> []"
    and "minimize l (problem_of l df risk_level max_weight) = Inr r"
    and "\<not> res_success r"
  shows
    "snd (optimize_markowitz_portfolio l df risk_level max_weight)
       = Inl (ValueError
           (''Failed to optimize portfolio: Portfolio optimization did not converge: ''
              @ res_message r)) \<and>
     optimize_portfolio l file risk_level max_weight
       = ([ReadFile file,
           LogInfo_Optimizing (length (columns df)) (length (rows df)),
           SolverCall (problem_of l df risk_level max_weight),
           LogWarning_OptimizationFailed (res_message r),
           LogError_InOptimization
             (''Portfolio optimization did not converge: '' @ res_message r)],
          Inl (HTTPException 400
            (''Failed to optimize portfolio: Portfolio optimization did not converge: ''
               @ res_message r))) \<and>
     (\<forall>weights. snd (optimize_portfolio l file risk_level max_weight) \<noteq> Inr weights)"
proof -
  note m = markowitz_not_converged [OF assms(7) assms(8) assms(9)]
  have t: "optimize_portfolio_try l file risk_level max_weight
       = ([ReadFile file,
           LogInfo_Optimizing (length (columns df)) (length (rows df)),
           SolverCall (problem_of l df risk_level max_weight),
           LogWarning_OptimizationFailed (res_message r),
           LogError_InOptimization
             (''Portfolio optimization did not converge: '' @ res_message r)],
          Inl (ValueError
            (''Failed to optimize portfolio: Portfolio optimization did not converge: ''
               @ res_message r)))"
    using assms(4-6) by (simp add: try_optimizes m)
  have e: "optimize_portfolio l file risk_level max_weight
       = ([ReadFile file,
           LogInfo_Optimizing (length (columns df)) (length (rows df)),
           SolverCall (problem_of l df risk_level max_weight),
           LogWarning_OptimizationFailed (res_message r),
           LogError_InOptimization
             (''Portfolio optimization did not converge: '' @ res_message r)],
          Inl (HTTPException 400
            (''Failed to optimize portfolio: Portfolio optimization did not converge: ''
               @ res_message r)))"
    using assms(1-3) by (simp add: endpoint_valid_parameters t)
  show ?thesis
    unfolding e by (simp add: m)
qed

lemma frame_A_facts:
  "all_isreal frame_A" "length (rows frame_A) = 30" "columns frame_A = [''A'']"
  by (simp_all add: frame_A_def all_isreal_def list_all_iff)

theorem C3_non_convergence_is_a_failure_witness:
  "\<not> float_le (Finite 1) 0 \<and> \<not> float_gt (Finite 1) 1 \<and>
   read_csv (example_lib frame_A (not_converged [1 / 2])) ''csv'' = Inr frame_A \<and>
   all_isreal frame_A \<and> 30 \<le> length (rows frame_A) \<and> columns frame_A \<noteq> [] \<and>
   minimize (example_lib frame_A (not_converged [1 / 2]))
     (problem_of (example_lib frame_A (not_converged [1 / 2])) frame_A (Finite 1) (Finite 1))
     = Inr (not_converged [1 / 2]) \<and>
   \<not> res_success (not_converged [1 / 2]) \<and>
   snd (optimize_portfolio (example_lib frame_A (not_converged [1 / 2])) ''csv'' (Finite 1) (Finite 1))
     = Inl (HTTPException 400
         (''Failed to optimize portfolio: Portfolio optimization did not converge: ''
            @ ''Iteration limit reached''))"
  using C3_non_convergence_is_a_failure
      [of "Finite 1" "Finite 1" "example_lib frame_A (not_converged [1 / 2])" "''csv''" frame_A
        "not_converged [1 / 2]"]
  by (simp add: frame_A_facts not_converged_def)

subsection \<open>Bounds that cannot sum to one\<close>

text \<open>
  Claim C2, as written, fails: the module has no test of \<open>n * max_weight < 1\<close>. With
  one asset and \<open>max_weight = 1/2\<close> the solver is called, on the problem built from
  the frame, and the failure that reaches the caller is the one made from the solver's
  answer.
\<close>

theorem C2_solver_is_called_counterexample:
  "real (length (columns frame_A)) * (1 / 2) < 1 \<and>
   solver_calls (fst (optimize_portfolio
       (example_lib frame_A (not_converged [1 / 2])) ''csv'' (Finite 1) (Finite (1 / 2))))
     = [problem_of (example_lib frame_A (not_converged [1 / 2])) frame_A (Finite 1) (Finite (1 / 2))] \<and>
   snd (optimize_portfolio (example_lib frame_A (not_converged [1 / 2])) ''csv'' (Finite 1) (Finite (1 / 2)))
     = Inl (HTTPException 400
         ''Failed to optimize portfolio: Portfolio optimization did not converge: Iteration limit reached'')"
proof -
  have "snd (optimize_portfolio (example_lib frame_A (not_converged [1 / 2])) ''csv'' (Finite 1) (Finite (1 / 2)))
     = Inl (HTTPException 400
         ''Failed to optimize portfolio: Portfolio optimization did not converge: Iteration limit reached'')"
    by (simp add: endpoint_result frame_A_facts markowitz_not_converged not_converged_def)
  then show ?thesis
    by (simp add: endpoint_solver_calls frame_A_facts)
qed

text \<open>
  Claim C2 (amended): for a request that passes the validations, with \<open>n \<ge> 1\<close> assets
  and \<open>n * max_weight < 1\<close>, and for every risk level, the pipeline does not test the
  feasibility of the bounds: the solver is called exactly once, on the problem with the
  bounds \<open>[0, max_weight]\<close> for each asset, and when the solver reports a failure the
  pipeline fails with the status-400 error built from the solver's message.
\<close>

theorem C2_no_feasibility_test:
  assumes "\<not> float_le risk_level 0" and "0 < max_weight" and "max_weight \<le> 1"
    and "read_csv l file = Inr df" and "all_isreal df" and "30 \<le> length (rows df)"
    and "columns df \<noteq> []"
    and "real (length (columns df)) * max_weight < 1"
  shows
    "solver_calls (fst (optimize_portfolio l file risk_level (Finite max_weight)))
       = [problem_of l df risk_level (Finite max_weight)] \<and>
     bounds (problem_of l df risk_level (Finite max_weight))
       = replicate (length (columns df)) (Finite 0, Finite max_weight) \<and>
     (\<forall>r. minimize l (problem_of l df risk_level (Finite max_weight)) = Inr r \<and>
          \<not> res_success r \<longrightarrow>
        snd (optimize_portfolio l file risk_level (Finite max_weight))
          = Inl (HTTPException 400
              (''Failed to optimize portfolio: Portfolio optimization did not converge: ''
                 @ res_message r)))"
proof -
  have valid: "\<not> float_le (Finite max_weight) 0" "\<not> float_gt (Finite max_weight) 1"
    using assms(2,3) by simp_all
  have "solver_calls (fst (optimize_portfolio l file risk_level (Finite max_weight)))
       = [problem_of l df risk_level (Finite max_weight)]"
    using assms(1) valid assms(4-7) by (rule endpoint_solver_calls)
  moreover have "bounds (problem_of l df risk_level (Finite max_weight))
       = replicate (length (columns df)) (Finite 0, Finite max_weight)"
    by (simp add: problem_of_def markowitz_problem_def)
  moreover have "snd (optimize_portfolio l file risk_level (Finite max_weight))
          = Inl (HTTPException 400
              (''Failed to optimize portfolio: Portfolio optimization did not converge: ''
                 @ res_message r))"
    if "minimize l (problem_of l df risk_level (Finite max_weight)) = Inr r"
      and "\<not> res_success r" for r
    using assms(1) valid assms(4-7) that by (simp add: endpoint_result markowitz_not_converged)
  ultimately show ?thesis by blast
qed

theorem C2_no_feasibility_test_witness:
  "\<not> float_le (Finite 1) 0 \<and> (0::real) < 1 / 2 \<and> (1 / 2::real) \<le> 1 \<and>
   read_csv (example_lib frame_A (not_converged [1 / 2])) ''csv'' = Inr frame_A \<and>
   all_isreal frame_A \<and> 30 \<le> length (rows frame_A) \<and> columns frame_A \<noteq> [] \<and>
   real (length (columns frame_A)) * (1 / 2) < 1 \<and>
   solver_calls (fst (optimize_portfolio
       (example_lib frame_A (not_converged [1 / 2])) ''csv'' (Finite 1) (Finite (1 / 2))))
     = [problem_of (example_lib frame_A (not_converged [1 / 2])) frame_A (Finite 1) (Finite (1 / 2))] \<and>
   bounds (problem_of (example_lib frame_A (not_converged [1 / 2])) frame_A (Finite 1) (Finite (1 / 2)))
     = [(Finite 0, Finite (1 / 2))]"
  using C2_no_feasibility_test
      [of "Finite 1" "1 / 2" "example_lib frame_A (not_converged [1 / 2])" "''csv''" frame_A]
  by (simp add: frame_A_facts)

subsection \<open>Cells that are not finite numbers\<close>

lemma np_round4_1: "np_round4 1 = 1"
  by (simp add: np_round4_def rint_def)

lemma rounded_portfolio_A: "rounded_portfolio [''A''] [1] = [(''A'', 1)]"
  by (simp add: rounded_portfolio_def dict_of_def np_round4_1)

lemma frame_nan_facts:
  "all_isreal frame_nan" "length (rows frame_nan) = 30" "columns frame_nan = [''A'']"
  "NaN \<in> set (concat (rows frame_nan))" "Str s \<notin> set (concat (rows frame_nan))"
  by (simp_all add: frame_nan_def all_isreal_def list_all_iff)

text \<open>
  Claim C5, as written, fails on a matrix with a nan cell: \<^verbatim>\<open>np.isreal\<close> is true of
  nan, the check passes, the solver is called and a dictionary is returned.
\<close>

theorem C5_nan_cell_is_accepted_counterexample:
  "NaN \<in> set (concat (rows frame_nan)) \<and>
   solver_calls (fst (optimize_portfolio (example_lib frame_nan (converged [1])) ''csv'' (Finite 1) (Finite 1)))
     = [problem_of (example_lib frame_nan (converged [1])) frame_nan (Finite 1) (Finite 1)] \<and>
   snd (optimize_portfolio (example_lib frame_nan (converged [1])) ''csv'' (Finite 1) (Finite 1))
     = Inr [(''A'', 1)]"
proof -
  have "snd (optimize_portfolio (example_lib frame_nan (converged [1])) ''csv'' (Finite 1) (Finite 1))
     = Inr [(''A'', 1)]"
    by (simp add: endpoint_result frame_nan_facts markowitz_converged converged_def
        rounded_portfolio_A)
  then show ?thesis
    using frame_nan_facts(4) by (simp add: endpoint_solver_calls frame_nan_facts(1-3))
qed

text \<open>
  Claim C5 (amended): for a request whose parameters pass the validation, if the
  uploaded matrix has a cell that is not a number (a string), the check of line 132
  raises its error, the endpoint fails, and the solver is never called. A cell that is
  nan or infinite does not make this check fail: when no cell is a string, there are at
  least 30 rows and at least one column, the solver is called.
\<close>

theorem C5_non_numeric_cells:
  assumes "\<not> float_le risk_level 0" and "\<not> float_le max_weight 0"
    and "\<not> float_gt max_weight 1"
    and "read_csv l file = Inr df"
  shows
    "(Str s \<in> set (concat (rows df)) \<longrightarrow>
        optimize_portfolio_try l file risk_level max_weight
          = ([ReadFile file], Inl (HTTPException 400 detail_numeric)) \<and>
        (\<exists>e. snd (optimize_portfolio l file risk_level max_weight) = Inl e) \<and>
        solver_calls (fst (optimize_portfolio l file risk_level max_weight)) = []) \<and>
     ((\<forall>t. Str t \<notin> set (concat (rows df))) \<and> 30 \<le> length (rows df) \<and> columns df \<noteq> [] \<longrightarrow>
        solver_calls (fst (optimize_portfolio l file risk_level max_weight))
          = [problem_of l df risk_level max_weight])"
proof (intro conjI impI)
  assume "Str s \<in> set (concat (rows df))"
  then have n: "\<not> all_isreal df"
    unfolding all_isreal_iff by blast
  show t: "optimize_portfolio_try l file risk_level max_weight
          = ([ReadFile file], Inl (HTTPException 400 detail_numeric))"
    using assms(4) n by (rule try_non_numeric)
  note e = endpoint_http_exception [OF assms(1-3) t]
  show "\<exists>e. snd (optimize_portfolio l file risk_level max_weight) = Inl e"
    unfolding e by simp
  show "solver_calls (fst (optimize_portfolio l file risk_level max_weight)) = []"
    unfolding e by simp
next
  assume a: "(\<forall>t. Str t \<notin> set (concat (rows df))) \<and> 30 \<le> length (rows df) \<and> columns df \<noteq> []"
  then have "all_isreal df"
    unfolding all_isreal_iff by blast
  with assms a show "solver_calls (fst (optimize_portfolio l file risk_level max_weight))
          = [problem_of l df risk_level max_weight]"
    by (simp add: endpoint_solver_calls)
qed

theorem C5_non_numeric_cells_witness:
  "\<not> float_le (Finite 1) 0 \<and> \<not> float_gt (Finite 1) 1 \<and>
   read_csv (example_lib frame_text (converged [1])) ''csv'' = Inr frame_text \<and>
   Str ''abc'' \<in> set (concat (rows frame_text)) \<and>
   optimize_portfolio_try (example_lib frame_text (converged [1])) ''csv'' (Finite 1) (Finite 1)
     = ([ReadFile ''csv''], Inl (HTTPException 400 detail_numeric)) \<and>
   solver_calls (fst (optimize_portfolio (example_lib frame_text (converged [1])) ''csv'' (Finite 1) (Finite 1)))
     = [] \<and>
   read_csv (example_lib frame_nan (converged [1])) ''csv'' = Inr frame_nan \<and>
   30 \<le> length (rows frame_nan) \<and> columns frame_nan \<noteq> [] \<and>
   solver_calls (fst (optimize_portfolio (example_lib frame_nan (converged [1])) ''csv'' (Finite 1) (Finite 1)))
     = [problem_of (example_lib frame_nan (converged [1])) frame_nan (Finite 1) (Finite 1)]"
  using C5_non_numeric_cells
      [of "Finite 1" "Finite 1" "example_lib frame_text (converged [1])" "''csv''" frame_text "''abc''"]
    C5_non_numeric_cells
      [of "Finite 1" "Finite 1" "example_lib frame_nan (converged [1])" "''csv''" frame_nan]
    frame_text_facts(3) frame_nan_facts(5)
  by (simp add: frame_text_facts(1,2) frame_nan_facts(1-3))

subsection \<open>Sums over lists as sums over indices\<close>

lemma np_sum_nth: "np_sum v = (\<Sum>i<length v. v ! i)"
  by (simp add: np_sum_def sum_list_sum_nth atLeast0LessThan)

lemma np_dot_nth:
  assumes "length u = n" and "length v = n"
  shows "np_dot u v = (\<Sum>i<n. u ! i * v ! i)"
proof -
  have "np_dot u v = (\<Sum>i<length (zip u v). map2 (*) u v ! i)"
    by (simp add: np_dot_def sum_list_sum_nth atLeast0LessThan)
  also have "\<dots> = (\<Sum>i<n. u ! i * v ! i)"
    using assms by simp
  finally show ?thesis .
qed

lemma objective_nth:
  assumes "length mean_returns = n" and "length w = n"
  shows "objective mean_returns w = - (\<Sum>i<n. mean_returns ! i * w ! i)"
  using np_dot_nth [OF assms] by (simp add: objective_def np_dot_def np_sum_def)

lemma portfolio_variance_nth:
  assumes "length cov_matrix = n" and "\<forall>row\<in>set cov_matrix. length row = n"
    and "length w = n"
  shows "portfolio_variance cov_matrix w
           = (\<Sum>i<n. \<Sum>j<n. w ! i * cov_matrix ! i ! j * w ! j)"
proof -
  have len: "length (mat_vec cov_matrix w) = n"
    using assms(1) by (simp add: mat_vec_def)
  have "portfolio_variance cov_matrix w = (\<Sum>i<n. w ! i * mat_vec cov_matrix w ! i)"
    unfolding portfolio_variance_def using assms(3) len by (rule np_dot_nth)
  also have "\<dots> = (\<Sum>i<n. w ! i * (\<Sum>j<n. cov_matrix ! i ! j * w ! j))"
  proof (rule sum.cong)
    fix i assume "i \<in> {..<n}"
    then have i: "i < length cov_matrix" using assms(1) by simp
    then have "length (cov_matrix ! i) = n" using assms(2) by simp
    then have "np_dot (cov_matrix ! i) w = (\<Sum>j<n. cov_matrix ! i ! j * w ! j)"
      using assms(3) by (rule np_dot_nth)
    then show "w ! i * mat_vec cov_matrix w ! i = w ! i * (\<Sum>j<n. cov_matrix ! i ! j * w ! j)"
      using i by (simp add: mat_vec_def)
  qed simp
  also have "\<dots> = (\<Sum>i<n. \<Sum>j<n. w ! i * cov_matrix ! i ! j * w ! j)"
    by (simp add: sum_distrib_left mult.assoc)
  finally show ?thesis .
qed

lemma risk_constraint_defined:
  assumes "0 \<le> portfolio_variance cov_matrix w"
  shows "risk_constraint cov_matrix (Finite risk_level) w
           = Finite (risk_level - sqrt (portfolio_variance cov_matrix w))"
  using assms by (simp add: risk_constraint_def np_sqrt_def)

lemma float_sub_Nan: "float_sub a Nan = Nan"
  by (cases a) simp_all

lemma risk_constraint_nan:
  assumes "portfolio_variance cov_matrix w < 0"
  shows "risk_constraint cov_matrix risk_level w = Nan"
  using assms by (simp add: risk_constraint_def np_sqrt_def float_sub_Nan)

subsection \<open>The problem handed to the solver\<close>

text \<open>
  Claim C9. For a frame with at least one column the solver is called once, on the
  problem built from the estimated mean and covariance, the number of assets and the two
  parameters. For every mean vector of length \<open>n\<close>, every \<open>n \<times> n\<close> covariance matrix
  and every weight vector \<open>w\<close> of length \<open>n\<close>, with \<open>n > 0\<close>, that problem has: the
  objective \<open>- \<Sum>\<^sub>i mean\<^sub>i w\<^sub>i\<close>; two constraints, an equality with value
  \<open>\<Sum>\<^sub>i w\<^sub>i - 1\<close> and an inequality with value \<open>risk_level - sqrt (w\<^sup>T C w)\<close> (where
  the quadratic form is not negative); the bounds \<open>(0, max_weight)\<close> for each asset; the
  initial point \<open>1/n\<close> in each component; the method SLSQP with at most 1000 iterations.
\<close>

theorem C9_problem_handed_to_solver:
  assumes "0 < n" and "length mean_returns = n"
    and "length cov_matrix = n" and "list_all (\<lambda>row. length row = n) cov_matrix"
    and "length w = n" and "columns df \<noteq> []"
  shows
    "solver_calls (fst (optimize_markowitz_portfolio l df (Finite risk_level) (Finite max_weight)))
       = [markowitz_problem (df_mean l df) (df_cov l df) (length (columns df))
            (Finite risk_level) (Finite max_weight)] \<and>
     objective_fun (markowitz_problem mean_returns cov_matrix n (Finite risk_level) (Finite max_weight)) w
       = - (\<Sum>i<n. mean_returns ! i * w ! i) \<and>
     map ctype (constraints (markowitz_problem mean_returns cov_matrix n (Finite risk_level) (Finite max_weight)))
       = [Eq, Ineq] \<and>
     cfun (constraints (markowitz_problem mean_returns cov_matrix n (Finite risk_level) (Finite max_weight)) ! 0) w
       = Finite ((\<Sum>i<n. w ! i) - 1) \<and>
     (0 \<le> (\<Sum>i<n. \<Sum>j<n. w ! i * cov_matrix ! i ! j * w ! j) \<longrightarrow>
      cfun (constraints (markowitz_problem mean_returns cov_matrix n (Finite risk_level) (Finite max_weight)) ! 1) w
        = Finite (risk_level - sqrt (\<Sum>i<n. \<Sum>j<n. w ! i * cov_matrix ! i ! j * w ! j))) \<and>
     bounds (markowitz_problem mean_returns cov_matrix n (Finite risk_level) (Finite max_weight))
       = replicate n (Finite 0, Finite max_weight) \<and>
     x0 (markowitz_problem mean_returns cov_matrix n (Finite risk_level) (Finite max_weight))
       = replicate n (1 / real n) \<and>
     solver_method (markowitz_problem mean_returns cov_matrix n (Finite risk_level) (Finite max_weight))
       = ''SLSQP'' \<and>
     maxiter (markowitz_problem mean_returns cov_matrix n (Finite risk_level) (Finite max_weight)) = 1000"
proof -
  have calls: "solver_calls (fst (optimize_markowitz_portfolio l df (Finite risk_level) (Finite max_weight)))
       = [markowitz_problem (df_mean l df) (df_cov l df) (length (columns df))
            (Finite risk_level) (Finite max_weight)]"
    using markowitz_solver_calls [OF assms(6)] by (simp add: problem_of_def)
  have obj: "objective mean_returns w = - (\<Sum>i<n. mean_returns ! i * w ! i)"
    using assms(2,5) by (rule objective_nth)
  have eq: "sum_constraint w = Finite ((\<Sum>i<n. w ! i) - 1)"
    using assms(5) by (simp add: sum_constraint_def np_sum_nth)
  have q: "portfolio_variance cov_matrix w
             = (\<Sum>i<n. \<Sum>j<n. w ! i * cov_matrix ! i ! j * w ! j)"
    using assms(3,4,5) by (simp add: portfolio_variance_nth list_all_iff)
  have ineq: "risk_constraint cov_matrix (Finite risk_level) w
        = Finite (risk_level - sqrt (\<Sum>i<n. \<Sum>j<n. w ! i * cov_matrix ! i ! j * w ! j))"
    if "0 \<le> (\<Sum>i<n. \<Sum>j<n. w ! i * cov_matrix ! i ! j * w ! j)"
    using that risk_constraint_defined [of cov_matrix w risk_level] by (simp add: q)
  show ?thesis
    using calls obj eq ineq by (simp add: markowitz_problem_def)
qed

theorem C9_problem_handed_to_solver_witness:
  "(0::nat) < 2 \<and> length [2 / 100, 1 / 100 :: real] = 2 \<and>
   length [[4, 0], [0, 0 :: real]] = 2 \<and>
   list_all (\<lambda>row. length row = 2) [[4, 0], [0, 0 :: real]] \<and>
   length [1 / 2, 1 / 2 :: real] = 2 \<and> columns frame_AB \<noteq> [] \<and>
   objective_fun (markowitz_problem [2 / 100, 1 / 100] [[4, 0], [0, 0]] 2 (Finite 3) (Finite (6 / 10)))
       [1 / 2, 1 / 2] = - (3 / 200) \<and>
   cfun (constraints (markowitz_problem [2 / 100, 1 / 100] [[4, 0], [0, 0]] 2 (Finite 3) (Finite (6 / 10))) ! 0)
       [1 / 2, 1 / 2] = Finite 0 \<and>
   cfun (constraints (markowitz_problem [2 / 100, 1 / 100] [[4, 0], [0, 0]] 2 (Finite 3) (Finite (6 / 10))) ! 1)
       [1 / 2, 1 / 2] = Finite 2 \<and>
   bounds (markowitz_problem [2 / 100, 1 / 100] [[4, 0], [0, 0]] 2 (Finite 3) (Finite (6 / 10)))
     = [(Finite 0, Finite (6 / 10)), (Finite 0, Finite (6 / 10))] \<and>
   x0 (markowitz_problem [2 / 100, 1 / 100] [[4, 0], [0, 0]] 2 (Finite 3) (Finite (6 / 10))) = [1 / 2, 1 / 2]"
  using C9_problem_handed_to_solver
      [of 2 "[2 / 100, 1 / 100]" "[[4, 0], [0, 0]]" "[1 / 2, 1 / 2]" frame_AB
        "example_lib frame_AB (converged [6 / 10, 4 / 10])" 3 "6 / 10"]
  by (simp add: frame_AB_def lessThan_Suc eval_nat_numeral)

subsection \<open>Rounding to four decimals\<close>

lemma rint_floor: "\<lfloor>y\<rfloor> \<le> rint y" "rint y \<le> \<lfloor>y\<rfloor> + 1"
  by (simp_all add: rint_def Let_def)

lemma rint_error: "\<bar>of_int (rint y) - y\<bar> \<le> 1 / 2"
proof -
  have "of_int \<lfloor>y\<rfloor> \<le> y" "y < of_int \<lfloor>y\<rfloor> + 1"
    by linarith+
  then show ?thesis
    by (auto simp add: rint_def Let_def abs_le_iff)
qed

lemma rint_mono:
  assumes "x \<le> y"
  shows "rint x \<le> rint y"
proof (cases "\<lfloor>x\<rfloor> = \<lfloor>y\<rfloor>")
  case True
  with assms show ?thesis
    by (auto simp add: rint_def Let_def)
next
  case False
  with assms have "\<lfloor>x\<rfloor> < \<lfloor>y\<rfloor>"
    using floor_mono [of x y] by linarith
  then have "rint x \<le> \<lfloor>y\<rfloor>"
    using rint_floor(2) [of x] by linarith
  then show ?thesis
    using rint_floor(1) [of y] by linarith
qed

lemma np_round4_error: "\<bar>np_round4 v - v\<bar> \<le> 1 / 20000"
  using rint_error [of "v * 10000"] by (simp add: np_round4_def abs_le_iff field_simps)

lemma np_round4_mono: "u \<le> v \<Longrightarrow> np_round4 u \<le> np_round4 v"
  using rint_mono [of "u * 10000" "v * 10000"]
  by (simp add: np_round4_def divide_right_mono)

lemma np_round4_grid: "\<exists>k::int. np_round4 v = of_int k / 10000"
  by (auto simp add: np_round4_def)

subsection \<open>The dictionary built by the comprehension\<close>

lemma dict_set_fresh:
  assumes "k \<notin> fst ` set d"
  shows "dict_set k v d = d @ [(k, v)]"
  using assms by (induction d) auto

lemma foldl_dict_set_distinct:
  assumes "distinct (map fst (d @ ps))"
  shows "foldl (\<lambda>d (k, v). dict_set k v d) d ps = d @ ps"
  using assms
proof (induction ps arbitrary: d)
  case Nil
  then show ?case by simp
next
  case (Cons p ps)
  obtain k v where p: "p = (k, v)" by (cases p)
  from Cons.prems have fresh: "k \<notin> fst ` set d"
    by (auto simp add: p)
  from Cons.prems have "distinct (map fst ((d @ [(k, v)]) @ ps))"
    by (simp add: p)
  then have "foldl (\<lambda>d (k, v). dict_set k v d) (d @ [(k, v)]) ps = (d @ [(k, v)]) @ ps"
    by (rule Cons.IH)
  then show ?case
    by (simp add: p dict_set_fresh [OF fresh])
qed

lemma dict_of_distinct: "distinct (map fst ps) \<Longrightarrow> dict_of ps = ps"
  using foldl_dict_set_distinct [of "[]" ps] by (simp add: dict_of_def)

lemma distinct_keys_filter_zip:
  assumes "distinct tickers"
  shows "distinct (map fst (filter P (zip tickers vs)))"
proof -
  have "distinct (map fst (zip tickers vs))"
    using assms by (simp add: map_fst_zip_take)
  then show ?thesis
    by (rule distinct_map_filter)
qed

lemma rounded_portfolio_distinct:
  assumes "distinct tickers"
  shows "rounded_portfolio tickers v
           = filter (\<lambda>(ticker, weight). 1 / 10000 < weight) (zip tickers (map np_round4 v))"
  unfolding rounded_portfolio_def
  using assms by (intro dict_of_distinct distinct_keys_filter_zip)

subsection \<open>Post-processing of a converged result\<close>

lemma frame_BA_facts:
  "all_isreal frame_BA" "length (rows frame_BA) = 30" "columns frame_BA = [''A'', ''B'']"
  "finite_frame frame_BA"
  by (simp_all add: frame_BA_def all_isreal_def finite_frame_def list_all_iff)

lemma np_round4_examples:
  "np_round4 (1 / 10000) = 1 / 10000" "np_round4 (9999 / 10000) = 9999 / 10000"
  "np_round4 (50006 / 100000) = 5001 / 10000" "np_round4 (49994 / 100000) = 4999 / 10000"
  by (simp_all add: np_round4_def rint_def Let_def)

lemma frame_BA_statistics:
  "df_mean l frame_BA = [1 / 100, 1 / 50]" "df_cov l frame_BA = [[0, 0], [0, 0]]"
  by (simp_all add: df_mean_def df_cov_def frame_BA_facts upt_rec column_values_def
      mean_list_def sample_cov_def)
    (simp_all add: frame_BA_def sum_list_replicate)

text \<open>
  The point \<open>(0.0001, 0.9999)\<close> used below is what a solver should return on
  \<open>frame_BA\<close> with \<open>max_weight = 0.9999\<close>: it satisfies the bounds and both
  constraints, and no point that satisfies the bounds and the equality has a smaller
  objective.
\<close>

lemma frame_BA_optimum:
  assumes "length w = 2" and "sum_constraint w = Finite 0"
    and "list_all (\<lambda>v. 0 \<le> v \<and> v \<le> 9999 / 10000) w"
  shows "objective (df_mean l frame_BA) [1 / 10000, 9999 / 10000]
           \<le> objective (df_mean l frame_BA) w"
    and "sum_constraint [1 / 10000, 9999 / 10000] = Finite 0"
    and "risk_constraint (df_cov l frame_BA) (Finite 1) [1 / 10000, 9999 / 10000] = Finite 1"
proof -
  from assms(1) obtain a b where w: "w = [a, b]"
    by (auto simp add: length_Suc_conv eval_nat_numeral)
  from assms(2,3) have "a + b = 1" "b \<le> 9999 / 10000"
    by (simp_all add: w sum_constraint_def np_sum_def)
  then show "objective (df_mean l frame_BA) [1 / 10000, 9999 / 10000]
           \<le> objective (df_mean l frame_BA) w"
    by (simp add: frame_BA_statistics objective_def np_sum_def w)
  show "sum_constraint [1 / 10000, 9999 / 10000] = Finite 0"
    by (simp add: sum_constraint_def np_sum_def)
  show "risk_constraint (df_cov l frame_BA) (Finite 1) [1 / 10000, 9999 / 10000] = Finite 1"
    by (simp add: frame_BA_statistics risk_constraint_def portfolio_variance_def np_dot_def
        mat_vec_def np_sqrt_def)
qed

text \<open>
  Claim C4, as written, fails at the threshold: the comprehension keeps a pair when its
  rounded weight is greater than 0.0001, so an entry equal to 0.0001 is dropped. With
  the assets A and B, \<open>max_weight = 0.9999\<close> and the converged point
  (0.0001, 0.9999), the returned dictionary has B only.
\<close>

theorem C4_threshold_entry_dropped_counterexample:
  "np_round4 (1 / 10000) = 1 / 10000 \<and>
   optimize_markowitz_portfolio
       (example_lib frame_BA (converged [1 / 10000, 9999 / 10000])) frame_BA (Finite 1) (Finite (9999 / 10000))
     = ([SolverCall (problem_of (example_lib frame_BA (converged [1 / 10000, 9999 / 10000]))
           frame_BA (Finite 1) (Finite (9999 / 10000)))],
        Inr [(''B'', 9999 / 10000)])"
proof -
  have "rounded_portfolio [''A'', ''B''] [1 / 10000, 9999 / 10000] = [(''B'', 9999 / 10000)]"
    by (simp add: rounded_portfolio_distinct np_round4_examples)
  then show ?thesis
    by (simp add: markowitz_converged frame_BA_facts converged_def np_round4_examples)
qed

text \<open>
  Claim C4 (amended): for every converged result of the solver, on a frame with distinct
  column labels, the returned dictionary is the list of the pairs (label, weight
  rounded to 4 decimals), in the order of the columns, whose rounded weight is greater
  than 0.0001: an entry whose rounded weight is 0.0001 or less is dropped. The rounded
  weight is a multiple of 0.0001 at most 0.00005 away from the weight. When the sum of
  the kept weights is more than 0.01 away from 1, one warning is logged; the dictionary
  is the same in both cases, nothing is renormalised.
\<close>

theorem C4_post_processing:
  assumes "columns df \<noteq> []" and "distinct (columns df)"
    and "minimize l (problem_of l df risk_level max_weight) = Inr r"
    and "res_success r"
    and "kept = filter (\<lambda>(ticker, weight). 1 / 10000 < weight)
                  (zip (columns df) (map np_round4 (res_x r)))"
  shows
    "snd (optimize_markowitz_portfolio l df risk_level max_weight) = Inr kept \<and>
     fst (optimize_markowitz_portfolio l df risk_level max_weight)
       = SolverCall (problem_of l df risk_level max_weight) #
           (if \<bar>sum_list (map snd kept) - 1\<bar> > 1 / 100
            then [LogWarning_SumNotClose (sum_list (map snd kept))] else []) \<and>
     (\<exists>k::int. np_round4 v = of_int k / 10000) \<and> \<bar>np_round4 v - v\<bar> \<le> 1 / 20000"
proof -
  have "rounded_portfolio (columns df) (res_x r) = kept"
    using assms(2,5) by (simp add: rounded_portfolio_distinct)
  then show ?thesis
    using markowitz_converged [OF assms(1,3,4)] np_round4_grid [of v] np_round4_error [of v]
    by simp
qed

theorem C4_post_processing_witness:
  "columns frame_BA \<noteq> [] \<and> distinct (columns frame_BA) \<and>
   minimize (example_lib frame_BA (converged [1 / 4, 1 / 2]))
       (problem_of (example_lib frame_BA (converged [1 / 4, 1 / 2])) frame_BA (Finite 1) (Finite 1))
     = Inr (converged [1 / 4, 1 / 2]) \<and>
   res_success (converged [1 / 4, 1 / 2]) \<and>
   optimize_markowitz_portfolio (example_lib frame_BA (converged [1 / 4, 1 / 2])) frame_BA (Finite 1) (Finite 1)
     = ([SolverCall (problem_of (example_lib frame_BA (converged [1 / 4, 1 / 2])) frame_BA (Finite 1) (Finite 1)),
         LogWarning_SumNotClose (3 / 4)],
        Inr [(''A'', 1 / 4), (''B'', 1 / 2)])"
proof -
  have r: "np_round4 (1 / 4) = 1 / 4" "np_round4 (1 / 2) = 1 / 2"
    by (simp_all add: np_round4_def rint_def Let_def)
  show ?thesis
    using C4_post_processing
      [of frame_BA "example_lib frame_BA (converged [1 / 4, 1 / 2])" "Finite 1" "Finite 1"
        "converged [1 / 4, 1 / 2]" "[(''A'', 1 / 4), (''B'', 1 / 2)]" 0]
    by (simp add: frame_BA_facts converged_def r prod_eq_iff)
qed

subsection \<open>Range and sum of the returned weights\<close>

lemma sum_kept_weights:
  "sum_list (map snd (filter (\<lambda>(ticker, weight). 1 / 10000 < weight)
       (zip tickers (map np_round4 vs))))
     = sum_list (map kept_weight (take (length tickers) vs))"
proof (induction tickers arbitrary: vs)
  case Nil
  then show ?case by simp
next
  case (Cons t ts)
  then show ?case
    by (cases vs) (simp_all add: kept_weight_def)
qed

lemma kept_weight_error:
  assumes "0 \<le> v"
  shows "\<bar>kept_weight v - v\<bar> \<le> 3 / 20000"
proof (cases "1 / 10000 < np_round4 v")
  case True
  then have "kept_weight v = np_round4 v"
    by (simp add: kept_weight_def)
  then show ?thesis
    using np_round4_error [of v] by linarith
next
  case False
  then have "kept_weight v = 0"
    by (simp add: kept_weight_def)
  moreover from False have "v \<le> 3 / 20000"
    using np_round4_error [of v] by linarith
  ultimately show ?thesis
    using assms by linarith
qed

lemma sum_list_close:
  assumes "\<forall>v\<in>set vs. \<bar>f v - v\<bar> \<le> e"
  shows "\<bar>sum_list (map f vs) - sum_list vs\<bar> \<le> real (length vs) * e"
  using assms
proof (induction vs)
  case Nil
  then show ?case by simp
next
  case (Cons v vs)
  then have "\<bar>f v - v\<bar> \<le> e" and "\<bar>sum_list (map f vs) - sum_list vs\<bar> \<le> real (length vs) * e"
    by simp_all
  then show ?case
    by (simp add: abs_le_iff algebra_simps)
qed

lemma sum_rounded_portfolio:
  assumes "distinct tickers" and "length vs = length tickers"
    and "list_all (\<lambda>v. 0 \<le> v) vs"
  shows "\<bar>sum_list (map snd (rounded_portfolio tickers vs)) - sum_list vs\<bar>
           \<le> real (length tickers) * (3 / 20000)"
proof -
  have "sum_list (map snd (rounded_portfolio tickers vs)) = sum_list (map kept_weight vs)"
    unfolding rounded_portfolio_distinct [OF assms(1)] sum_kept_weights
    using assms(2) by simp
  moreover have "\<forall>v\<in>set vs. \<bar>kept_weight v - v\<bar> \<le> 3 / 20000"
  proof
    fix v assume "v \<in> set vs"
    with assms(3) have "0 \<le> v"
      by (simp add: list_all_iff)
    then show "\<bar>kept_weight v - v\<bar> \<le> 3 / 20000"
      by (rule kept_weight_error)
  qed
  then have "\<bar>sum_list (map kept_weight vs) - sum_list vs\<bar> \<le> real (length vs) * (3 / 20000)"
    by (rule sum_list_close)
  ultimately show ?thesis
    using assms(2) by simp
qed

subsection \<open>Validation of the two parameters\<close>




subsection \<open>The square root in the risk constraint\<close>

lemma frame_gaps_facts:
  "all_isreal frame_gaps" "length (rows frame_gaps) = 30" "columns frame_gaps = [''A'', ''B'']"
  "\<not> finite_frame frame_gaps"
  by (simp_all add: frame_gaps_def all_isreal_def finite_frame_def list_all_iff)

lemma frame_gaps_cov:
  "df_cov (example_lib frame_gaps r) frame_gaps
     = [[1 / 750, - (1 / 50)], [- (1 / 50), 1 / 750]]"
proof -
  have "df_cov (example_lib frame_gaps r) frame_gaps = pairwise_cov frame_gaps"
    by (simp add: df_cov_def frame_gaps_facts example_lib_def)
  also have "\<dots> = [[1 / 750, - (1 / 50)], [- (1 / 50), 1 / 750]]"
    by (simp add: pairwise_cov_def frame_gaps_def upt_rec sample_cov_def mean_list_def
        sum_list_replicate)
  finally show ?thesis .
qed

lemma frame_gaps_variance:
  "portfolio_variance (df_cov (example_lib frame_gaps r) frame_gaps) [1 / 2, 1 / 2]
     = - (7 / 750)"
  by (simp add: frame_gaps_cov portfolio_variance_def np_dot_def mat_vec_def)

text \<open>
  Claim C8, as written, fails: \<^verbatim>\<open>risk_constraint\<close> passes the quadratic form to
  \<^verbatim>\<open>np.sqrt\<close> as it is. The frame \<open>frame_gaps\<close> passes every check of the
  endpoint; pandas estimates each covariance over the days where both returns are
  present, which gives the variances 1/750 and the covariance -1/50. At the initial point
  (1/2, 1/2), where the solver starts, the quadratic form is -7/750 and the constraint
  handed to the solver evaluates to nan.
\<close>

theorem C8_negative_root_argument_counterexample:
  "solver_calls (fst (optimize_portfolio
       (example_lib frame_gaps (not_converged [1 / 2, 1 / 2])) ''csv'' (Finite (1 / 10))
       (Finite 1)))
     = [problem_of (example_lib frame_gaps (not_converged [1 / 2, 1 / 2])) frame_gaps
          (Finite (1 / 10)) (Finite 1)] \<and>
   x0 (problem_of (example_lib frame_gaps (not_converged [1 / 2, 1 / 2])) frame_gaps
          (Finite (1 / 10)) (Finite 1))
     = [1 / 2, 1 / 2] \<and>
   portfolio_variance (df_cov (example_lib frame_gaps (not_converged [1 / 2, 1 / 2])) frame_gaps)
       [1 / 2, 1 / 2]
     = - (7 / 750) \<and>
   cfun (constraints (problem_of (example_lib frame_gaps (not_converged [1 / 2, 1 / 2]))
          frame_gaps (Finite (1 / 10)) (Finite 1)) ! 1) [1 / 2, 1 / 2]
     = Nan"
proof -
  have "risk_constraint (df_cov (example_lib frame_gaps (not_converged [1 / 2, 1 / 2])) frame_gaps)
          (Finite (1 / 10)) [1 / 2, 1 / 2] = Nan"
    by (rule risk_constraint_nan) (simp add: frame_gaps_variance)
  then show ?thesis
    by (simp add: endpoint_solver_calls frame_gaps_facts frame_gaps_variance problem_of_def
        markowitz_problem_def eval_nat_numeral)
qed

text \<open>
  Claim C8 (amended): the risk constraint handed to the solver takes the square root of
  the quadratic form \<open>w\<^sup>T C w\<close> of the estimated covariance as it is, without clamping
  it at zero: at every weight vector where the quadratic form is negative the constraint
  evaluates to nan, whatever the risk level.
\<close>

theorem C8_risk_constraint_root:
  assumes "columns df \<noteq> []" and "length (df_cov l df) = length (columns df)"
    and "list_all (\<lambda>row. length row = length (columns df)) (df_cov l df)"
    and "length w = length (columns df)"
    and "(\<Sum>i<length w. \<Sum>j<length w. w ! i * df_cov l df ! i ! j * w ! j) < 0"
  shows
    "solver_calls (fst (optimize_markowitz_portfolio l df risk_level max_weight))
       = [problem_of l df risk_level max_weight] \<and>
     map ctype (constraints (problem_of l df risk_level max_weight)) = [Eq, Ineq] \<and>
     cfun (constraints (problem_of l df risk_level max_weight) ! 1) w = Nan"
proof -
  have "portfolio_variance (df_cov l df) w
          = (\<Sum>i<length w. \<Sum>j<length w. w ! i * df_cov l df ! i ! j * w ! j)"
    using assms(2-4) by (simp add: portfolio_variance_nth list_all_iff)
  with assms(5) have "portfolio_variance (df_cov l df) w < 0"
    by simp
  then have "risk_constraint (df_cov l df) risk_level w = Nan"
    by (rule risk_constraint_nan)
  then show ?thesis
    using markowitz_solver_calls [OF assms(1)]
    by (simp add: problem_of_def markowitz_problem_def)
qed

theorem C8_risk_constraint_root_witness:
  "columns frame_gaps \<noteq> [] \<and>
   length (df_cov (example_lib frame_gaps (not_converged [1 / 2, 1 / 2])) frame_gaps)
     = length (columns frame_gaps) \<and>
   list_all (\<lambda>row. length row = length (columns frame_gaps))
     (df_cov (example_lib frame_gaps (not_converged [1 / 2, 1 / 2])) frame_gaps) \<and>
   length [1 / 2, 1 / 2 :: real] = length (columns frame_gaps) \<and>
   (\<Sum>i<length [1 / 2, 1 / 2 :: real]. \<Sum>j<length [1 / 2, 1 / 2 :: real].
       [1 / 2, 1 / 2] ! i
         * df_cov (example_lib frame_gaps (not_converged [1 / 2, 1 / 2])) frame_gaps ! i ! j
         * [1 / 2, 1 / 2] ! j) < 0 \<and>
   cfun (constraints (problem_of (example_lib frame_gaps (not_converged [1 / 2, 1 / 2]))
          frame_gaps (Finite (1 / 10)) (Finite 1)) ! 1) [1 / 2, 1 / 2]
     = Nan"
  using C8_risk_constraint_root
      [of frame_gaps "example_lib frame_gaps (not_converged [1 / 2, 1 / 2])" "[1 / 2, 1 / 2]"
        "Finite (1 / 10)" "Finite 1"]
  by (simp add: frame_gaps_facts frame_gaps_cov lessThan_Suc eval_nat_numeral)

subsection \<open>Frames of identical assets\<close>

lemma digit_value:
  assumes "n < 10"
  shows "(of_char (''0123456789'' ! n) :: nat) - 48 = n"
proof -
  from assms have "n \<in> {0, 1, 2, 3, 4, 5, 6, 7, 8, 9}"
    by auto
  then show ?thesis
    by auto
qed

lemma nat_of_digits_snoc:
  "nat_of_digits (ds @ [c]) = 10 * nat_of_digits ds + (of_char c - 48)"
  by (simp add: nat_of_digits_def)

lemma nat_of_digits_str_nat: "nat_of_digits (str_nat n) = n"
proof (induction n rule: str_nat.induct)
  case (1 n)
  show ?case
  proof (cases "n < 10")
    case True
    then have "str_nat n = [''0123456789'' ! n]"
      by (subst str_nat.simps) simp
    then show ?thesis
      using digit_value [OF True] by (simp add: nat_of_digits_def)
  next
    case False
    then have s: "str_nat n = str_nat (n div 10) @ [''0123456789'' ! (n mod 10)]"
      by (subst str_nat.simps) simp
    have "n mod 10 < 10"
      by simp
    then have "(of_char (''0123456789'' ! (n mod 10)) :: nat) - 48 = n mod 10"
      by (rule digit_value)
    with 1 False show ?thesis
      unfolding s nat_of_digits_snoc by simp
  qed
qed

lemma distinct_tickers: "distinct (map asset_name [0..<n])"
proof -
  have "inj asset_name"
  proof (rule injI)
    fix a b assume "asset_name a = asset_name b"
    then have "nat_of_digits (str_nat a) = nat_of_digits (str_nat b)"
      by (simp add: asset_name_def)
    then show "a = b"
      by (simp add: nat_of_digits_str_nat)
  qed
  then show ?thesis
    by (simp add: distinct_map inj_on_def inj_def)
qed

lemma frame_uniform_facts:
  "all_isreal (frame_uniform n)" "length (rows (frame_uniform n)) = 30"
  "columns (frame_uniform n) = map asset_name [0..<n]" "length (columns (frame_uniform n)) = n"
  "finite_frame (frame_uniform n)" "rows (frame_uniform n) \<noteq> []"
  by (simp_all add: frame_uniform_def all_isreal_def finite_frame_def list_all_iff)

lemma example_lib_x0_read_csv [simp]: "read_csv (example_lib_x0 df) file = Inr df"
  by (simp add: example_lib_x0_def)

lemma example_lib_x0_minimize [simp]:
  "minimize (example_lib_x0 df) p = Inr (converged (x0 p))"
  by (simp add: example_lib_x0_def stays_at_x0_def)

lemma x0_problem_of:
  "x0 (problem_of l df risk_level max_weight)
     = replicate (length (columns df)) (1 / real (length (columns df)))"
  by (simp add: problem_of_def markowitz_problem_def)

lemma rounded_portfolio_replicate:
  assumes "distinct ts" and "length ts = n" and "np_round4 v = c" and "1 / 10000 < c"
  shows "rounded_portfolio ts (replicate n v) = zip ts (replicate n c)"
proof -
  have "filter (\<lambda>(ticker, weight). 1 / 10000 < weight) (zip ts (replicate n c))
          = zip ts (replicate n c)"
  proof (rule filter_True)
    show "\<forall>p\<in>set (zip ts (replicate n c)). case p of (ticker, weight) \<Rightarrow> 1 / 10000 < weight"
    proof
      fix p assume "p \<in> set (zip ts (replicate n c))"
      then have "(fst p, snd p) \<in> set (zip ts (replicate n c))"
        by simp
      then have "snd p \<in> set (replicate n c)"
        by (rule set_zip_rightD)
      then have "snd p = c"
        by simp
      with assms(4) show "case p of (ticker, weight) \<Rightarrow> 1 / 10000 < weight"
        by (simp add: split_beta)
    qed
  qed
  moreover have "map np_round4 (replicate n v) = replicate n c"
    using assms(3) by simp
  ultimately show ?thesis
    unfolding rounded_portfolio_distinct [OF assms(1)] by (simp only:)
qed

lemma sum_zip_replicate:
  assumes "length ts = n"
  shows "sum_list (map snd (zip ts (replicate n c))) = real n * c"
  using assms by (simp add: sum_list_replicate)

text \<open>
  The pipeline on a frame of \<open>n\<close> identical assets with a solver that returns the
  initial point: every asset gets \<open>1/n\<close> rounded to 4 decimals.
\<close>

lemma uniform_pipeline:
  assumes "\<not> float_le risk_level 0" and "\<not> float_le max_weight 0"
    and "\<not> float_gt max_weight 1"
    and "0 < n" and "np_round4 (1 / real n) = c" and "1 / 10000 < c"
    and "real n * c = weight_sum"
  shows "optimize_portfolio (example_lib_x0 (frame_uniform n)) file risk_level max_weight
           = (ReadFile file # LogInfo_Optimizing n 30 #
              SolverCall (problem_of (example_lib_x0 (frame_uniform n)) (frame_uniform n)
                risk_level max_weight) #
              (if \<bar>weight_sum - 1\<bar> > 1 / 100 then [LogWarning_SumNotClose weight_sum] else []),
              Inr (zip (map asset_name [0..<n]) (replicate n c)))"
proof -
  let ?l = "example_lib_x0 (frame_uniform n)"
  let ?df = "frame_uniform n"
  have cols: "columns ?df \<noteq> []"
    using assms(4) by (simp add: frame_uniform_facts)
  have pf: "rounded_portfolio (columns ?df) (x0 (problem_of ?l ?df risk_level max_weight))
              = zip (map asset_name [0..<n]) (replicate n c)"
    unfolding x0_problem_of frame_uniform_facts
    using distinct_tickers [of n] assms(5,6)
    by (simp add: rounded_portfolio_replicate)
  have weight_sum:
    "sum_list (map snd (zip (map asset_name [0..<n]) (replicate n c))) = weight_sum"
    using assms(7) by (simp add: sum_list_replicate)
  have m: "optimize_markowitz_portfolio ?l ?df risk_level max_weight
             = (SolverCall (problem_of ?l ?df risk_level max_weight) #
                  (if \<bar>weight_sum - 1\<bar> > 1 / 100 then [LogWarning_SumNotClose weight_sum] else []),
                Inr (zip (map asset_name [0..<n]) (replicate n c)))"
  proof -
    have r: "minimize ?l (problem_of ?l ?df risk_level max_weight)
               = Inr (converged (x0 (problem_of ?l ?df risk_level max_weight)))"
      by simp
    have ok: "res_success (converged (x0 (problem_of ?l ?df risk_level max_weight)))"
      by (simp add: converged_def)
    have x: "res_x (converged (x0 (problem_of ?l ?df risk_level max_weight)))
               = x0 (problem_of ?l ?df risk_level max_weight)"
      by (simp add: converged_def)
    show ?thesis
      using markowitz_converged [OF cols r ok] unfolding x pf weight_sum .
  qed
  have "optimize_portfolio_try ?l file risk_level max_weight
          = (ReadFile file # LogInfo_Optimizing n 30 #
             SolverCall (problem_of ?l ?df risk_level max_weight) #
             (if \<bar>weight_sum - 1\<bar> > 1 / 100 then [LogWarning_SumNotClose weight_sum] else []),
             Inr (zip (map asset_name [0..<n]) (replicate n c)))"
    using try_optimizes [of ?l "file" ?df risk_level max_weight]
    by (simp add: frame_uniform_facts m)
  then show ?thesis
    using assms(1-3) by (simp add: endpoint_valid_parameters)
qed

text \<open>
  The initial point is what a solver should return on such a frame: the objective has
  the same value at every point that satisfies the equality constraint, and the initial
  point satisfies the equality constraint, the risk constraint (the covariance is zero)
  and, when \<open>1/n \<le> max_weight\<close>, the bounds.
\<close>

lemma sum_list_map2_replicate:
  "sum_list (map2 (*) (replicate (length w) c) w) = c * sum_list (w :: real list)"
  by (induction w) (simp_all add: algebra_simps)

lemma frame_uniform_mean:
  "df_mean l (frame_uniform n) = replicate n (1 / 100)"
proof -
  have "map (\<lambda>j. mean_list (column_values (frame_uniform n) j)) [0..<n]
          = map (\<lambda>j. 1 / 100) [0..<n]"
    by (rule map_cong)
      (simp_all add: column_values_def frame_uniform_def mean_list_def sum_list_replicate)
  then show ?thesis
    by (simp add: df_mean_def frame_uniform_facts map_replicate_const)
qed

lemma frame_uniform_cov:
  "df_cov l (frame_uniform n) = replicate n (replicate n 0)"
proof -
  have "map (\<lambda>i. map (\<lambda>j. sample_cov (column_values (frame_uniform n) i)
                  (column_values (frame_uniform n) j)) [0..<n]) [0..<n]
          = map (\<lambda>i. map (\<lambda>j. 0) [0..<n]) [0..<n]"
    by (intro map_cong refl)
      (simp_all add: column_values_def frame_uniform_def sample_cov_def mean_list_def
        sum_list_replicate)
  then show ?thesis
    by (simp add: df_cov_def frame_uniform_facts map_replicate_const)
qed

lemma np_dot_zero_row: "np_dot (replicate n 0) w = 0"
proof (induction n arbitrary: w)
  case 0
  then show ?case by (simp add: np_dot_def)
next
  case (Suc n)
  then show ?case by (cases w) (simp_all add: np_dot_def)
qed

lemma np_dot_zero_right: "np_dot w (replicate n 0) = 0"
proof (induction w arbitrary: n)
  case Nil
  then show ?case by (simp add: np_dot_def)
next
  case (Cons v w)
  then show ?case by (cases n) (simp_all add: np_dot_def)
qed

lemma frame_uniform_x0_optimal:
  assumes "0 < n" and "length w = n" and "sum_constraint w = Finite 0"
  shows "objective (df_mean l (frame_uniform n)) (replicate n (1 / real n))
           = objective (df_mean l (frame_uniform n)) w"
    and "sum_constraint (replicate n (1 / real n)) = Finite 0"
    and "risk_constraint (df_cov l (frame_uniform n)) (Finite risk_level)
           (replicate n (1 / real n)) = Finite risk_level"
proof -
  have obj: "objective (replicate n (1 / 100)) v = - (sum_list v / 100)" if "length v = n" for v
    using sum_list_map2_replicate [of v "1 / 100"] that by (simp add: objective_def np_sum_def)
  have x0: "sum_list (replicate n (1 / real n)) = 1"
    using assms(1) by (simp add: sum_list_replicate)
  from assms(3) have "sum_list w = 1"
    by (simp add: sum_constraint_def np_sum_def)
  then show "objective (df_mean l (frame_uniform n)) (replicate n (1 / real n))
           = objective (df_mean l (frame_uniform n)) w"
    using assms(2) x0 by (simp add: frame_uniform_mean obj)
  show "sum_constraint (replicate n (1 / real n)) = Finite 0"
    using x0 by (simp add: sum_constraint_def np_sum_def)
  have "portfolio_variance (replicate n (replicate n 0)) (replicate n (1 / real n)) = 0"
    by (simp add: portfolio_variance_def mat_vec_def np_dot_zero_row np_dot_zero_right
        map_replicate_const)
  then show "risk_constraint (df_cov l (frame_uniform n)) (Finite risk_level)
           (replicate n (1 / real n)) = Finite risk_level"
    by (simp add: frame_uniform_cov risk_constraint_def np_sqrt_def)
qed

subsection \<open>Range and sum of the returned weights, for the whole pipeline\<close>

lemma np_round4_sixth: "np_round4 (1 / 6) = 1667 / 10000"
  by (simp add: np_round4_def rint_def Let_def)

lemma np_round4_350th: "np_round4 (1 / 350) = 29 / 10000"
  by (simp add: np_round4_def rint_def Let_def)

text \<open>
  Claim C1, as written, fails in both parts, on frames of identical assets, where the
  solver has nothing to improve and returns the initial point. With 6 assets and
  \<open>max_weight = 0.16667\<close> every returned weight is \<open>1/6\<close> rounded to 4 decimals,
  0.1667, above \<open>max_weight\<close>. With 350 assets and \<open>max_weight = 1\<close> every returned
  weight is 0.0029 and their sum is 1.015: the warning is logged and the dictionary is
  returned as it is.
\<close>

theorem C1_rounded_weights_counterexample:
  "snd (optimize_portfolio (example_lib_x0 (frame_uniform 6)) ''csv'' (Finite 1)
         (Finite (16667 / 100000)))
     = Inr (zip (map asset_name [0..<6]) (replicate 6 (1667 / 10000))) \<and>
   (16667 / 100000 :: real) < 1667 / 10000 \<and>
   optimize_portfolio (example_lib_x0 (frame_uniform 350)) ''csv'' (Finite 1) (Finite 1)
     = ([ReadFile ''csv'', LogInfo_Optimizing 350 30,
         SolverCall (problem_of (example_lib_x0 (frame_uniform 350)) (frame_uniform 350)
           (Finite 1) (Finite 1)),
         LogWarning_SumNotClose (203 / 200)],
        Inr (zip (map asset_name [0..<350]) (replicate 350 (29 / 10000)))) \<and>
   sum_list (map snd (zip (map asset_name [0..<350]) (replicate 350 (29 / 10000 :: real))))
     = 203 / 200 \<and>
   \<bar>203 / 200 - 1 :: real\<bar> > 1 / 100"
proof -
  have six: "real 6 * (1667 / 10000) = 10002 / 10000"
    by simp
  have a: "snd (optimize_portfolio (example_lib_x0 (frame_uniform 6)) ''csv'' (Finite 1)
         (Finite (16667 / 100000)))
     = Inr (zip (map asset_name [0..<6]) (replicate 6 (1667 / 10000)))"
    by (subst uniform_pipeline [where c = "1667 / 10000" and weight_sum = "10002 / 10000"])
      (simp_all add: np_round4_sixth)
  have many: "real 350 * (29 / 10000) = 203 / 200"
    by simp
  have b: "optimize_portfolio (example_lib_x0 (frame_uniform 350)) ''csv'' (Finite 1) (Finite 1)
     = ([ReadFile ''csv'', LogInfo_Optimizing 350 30,
         SolverCall (problem_of (example_lib_x0 (frame_uniform 350)) (frame_uniform 350)
           (Finite 1) (Finite 1)),
         LogWarning_SumNotClose (203 / 200)],
        Inr (zip (map asset_name [0..<350]) (replicate 350 (29 / 10000))))"
    by (subst uniform_pipeline [where c = "29 / 10000" and weight_sum = "203 / 200"])
      (simp_all add: np_round4_350th)
  have c: "sum_list (map snd (zip (map asset_name [0..<350]) (replicate 350 (29 / 10000 :: real))))
             = 203 / 200"
    by (subst sum_zip_replicate) simp_all
  show ?thesis
    using a b c by simp
qed

text \<open>
  Claim C1 (amended): for a request that passes the validations, on a frame with
  distinct column labels, when the solver converges the endpoint returns the dictionary
  of the rounded weights. Every returned weight is greater than 0.0001; it is the
  solver's weight of that asset rounded to 4 decimals, at most 0.00005 away from it,
  hence at most \<open>max_weight + 0.00005\<close> where the solver's weight is at most
  \<open>max_weight\<close>. The sum of the returned weights is not brought back to 1: when it is
  more than 0.01 away from 1 the warning is logged, and the dictionary is the same. When
  the solver's weights are one for each asset and not negative, the sum of the returned
  weights differs from their sum by at most 0.00015 for each asset.
\<close>

theorem C1_returned_weights:
  assumes "\<not> float_le risk_level 0" and "0 < max_weight" and "max_weight \<le> 1"
    and "read_csv l file = Inr df" and "all_isreal df" and "30 \<le> length (rows df)"
    and "columns df \<noteq> []" and "distinct (columns df)"
    and "minimize l (problem_of l df risk_level (Finite max_weight)) = Inr r"
    and "res_success r"
    and "returned = rounded_portfolio (columns df) (res_x r)"
  shows
    "optimize_portfolio l file risk_level (Finite max_weight)
       = (ReadFile file # LogInfo_Optimizing (length (columns df)) (length (rows df)) #
          SolverCall (problem_of l df risk_level (Finite max_weight)) #
          (if \<bar>sum_list (map snd returned) - 1\<bar> > 1 / 100
           then [LogWarning_SumNotClose (sum_list (map snd returned))] else []),
          Inr returned) \<and>
     list_all (\<lambda>(ticker, weight).
         1 / 10000 < weight \<and>
         (\<exists>i. i < length (columns df) \<and> i < length (res_x r) \<and> ticker = columns df ! i \<and>
              weight = np_round4 (res_x r ! i) \<and> \<bar>weight - res_x r ! i\<bar> \<le> 1 / 20000 \<and>
              (res_x r ! i \<le> max_weight \<longrightarrow> weight \<le> max_weight + 1 / 20000)))
       returned \<and>
     (length (res_x r) = length (columns df) \<and> list_all (\<lambda>v. 0 \<le> v) (res_x r) \<longrightarrow>
        \<bar>sum_list (map snd returned) - sum_list (res_x r)\<bar>
          \<le> real (length (columns df)) * (3 / 20000))"
proof (intro conjI impI)
  have valid: "\<not> float_le (Finite max_weight) 0" "\<not> float_gt (Finite max_weight) 1"
    using assms(2,3) by simp_all
  have "optimize_portfolio_try l file risk_level (Finite max_weight)
       = (ReadFile file # LogInfo_Optimizing (length (columns df)) (length (rows df)) #
          SolverCall (problem_of l df risk_level (Finite max_weight)) #
          (if \<bar>sum_list (map snd returned) - 1\<bar> > 1 / 100
           then [LogWarning_SumNotClose (sum_list (map snd returned))] else []),
          Inr returned)"
    unfolding try_optimizes [OF assms(4-6)] markowitz_converged [OF assms(7,9,10)] assms(11)
    by simp
  then show "optimize_portfolio l file risk_level (Finite max_weight)
       = (ReadFile file # LogInfo_Optimizing (length (columns df)) (length (rows df)) #
          SolverCall (problem_of l df risk_level (Finite max_weight)) #
          (if \<bar>sum_list (map snd returned) - 1\<bar> > 1 / 100
           then [LogWarning_SumNotClose (sum_list (map snd returned))] else []),
          Inr returned)"
    using assms(1) valid by (simp add: endpoint_valid_parameters)
next
  have kept: "returned = filter (\<lambda>(ticker, weight). 1 / 10000 < weight)
                (zip (columns df) (map np_round4 (res_x r)))"
    unfolding assms(11) using assms(8) by (rule rounded_portfolio_distinct)
  show "list_all (\<lambda>(ticker, weight).
         1 / 10000 < weight \<and>
         (\<exists>i. i < length (columns df) \<and> i < length (res_x r) \<and> ticker = columns df ! i \<and>
              weight = np_round4 (res_x r ! i) \<and> \<bar>weight - res_x r ! i\<bar> \<le> 1 / 20000 \<and>
              (res_x r ! i \<le> max_weight \<longrightarrow> weight \<le> max_weight + 1 / 20000)))
       returned"
    unfolding list_all_iff
  proof
    fix p assume "p \<in> set returned"
    then have z: "p \<in> set (zip (columns df) (map np_round4 (res_x r)))"
      and big: "1 / 10000 < snd p"
      unfolding kept by (auto simp add: split_beta)
    from z obtain i where i: "columns df ! i = fst p" "map np_round4 (res_x r) ! i = snd p"
      "i < length (columns df)" "i < length (map np_round4 (res_x r))"
      unfolding in_set_zip by blast
    then have w: "snd p = np_round4 (res_x r ! i)" and len: "i < length (res_x r)"
      by simp_all
    have err: "\<bar>snd p - res_x r ! i\<bar> \<le> 1 / 20000"
      unfolding w by (rule np_round4_error)
    then have bound: "res_x r ! i \<le> max_weight \<longrightarrow> snd p \<le> max_weight + 1 / 20000"
      by linarith
    have "\<exists>i. i < length (columns df) \<and> i < length (res_x r) \<and> fst p = columns df ! i \<and>
              snd p = np_round4 (res_x r ! i) \<and> \<bar>snd p - res_x r ! i\<bar> \<le> 1 / 20000 \<and>
              (res_x r ! i \<le> max_weight \<longrightarrow> snd p \<le> max_weight + 1 / 20000)"
      using i(1,3) len w err bound by (intro exI [of _ i]) (simp only: simp_thms)
    with big show "case p of (ticker, weight) \<Rightarrow>
         1 / 10000 < weight \<and>
         (\<exists>i. i < length (columns df) \<and> i < length (res_x r) \<and> ticker = columns df ! i \<and>
              weight = np_round4 (res_x r ! i) \<and> \<bar>weight - res_x r ! i\<bar> \<le> 1 / 20000 \<and>
              (res_x r ! i \<le> max_weight \<longrightarrow> weight \<le> max_weight + 1 / 20000))"
      unfolding split_beta by (intro conjI)
  qed
next
  assume "length (res_x r) = length (columns df) \<and> list_all (\<lambda>v. 0 \<le> v) (res_x r)"
  then show "\<bar>sum_list (map snd returned) - sum_list (res_x r)\<bar>
          \<le> real (length (columns df)) * (3 / 20000)"
    unfolding assms(11) using assms(8) by (intro sum_rounded_portfolio) simp_all
qed

lemma frame_AB_facts:
  "all_isreal frame_AB" "length (rows frame_AB) = 30" "columns frame_AB = [''A'', ''B'']"
  by (simp_all add: frame_AB_def all_isreal_def list_all_iff)

theorem C1_returned_weights_witness:
  "\<not> float_le (Finite 1) 0 \<and> (0::real) < 3 / 5 \<and> (3 / 5 :: real) \<le> 1 \<and>
   read_csv (example_lib frame_AB (converged [3 / 5, 2 / 5])) ''csv'' = Inr frame_AB \<and>
   all_isreal frame_AB \<and> 30 \<le> length (rows frame_AB) \<and> columns frame_AB \<noteq> [] \<and>
   distinct (columns frame_AB) \<and>
   minimize (example_lib frame_AB (converged [3 / 5, 2 / 5]))
       (problem_of (example_lib frame_AB (converged [3 / 5, 2 / 5])) frame_AB (Finite 1)
         (Finite (3 / 5)))
     = Inr (converged [3 / 5, 2 / 5]) \<and>
   res_success (converged [3 / 5, 2 / 5]) \<and>
   [(''A'', 3 / 5), (''B'', 2 / 5)]
     = rounded_portfolio (columns frame_AB) (res_x (converged [3 / 5, 2 / 5])) \<and>
   length (res_x (converged [3 / 5, 2 / 5])) = length (columns frame_AB) \<and>
   list_all (\<lambda>v. 0 \<le> v) (res_x (converged [3 / 5, 2 / 5])) \<and>
   optimize_portfolio (example_lib frame_AB (converged [3 / 5, 2 / 5])) ''csv'' (Finite 1)
       (Finite (3 / 5))
     = ([ReadFile ''csv'', LogInfo_Optimizing 2 30,
         SolverCall (problem_of (example_lib frame_AB (converged [3 / 5, 2 / 5])) frame_AB
           (Finite 1) (Finite (3 / 5)))],
        Inr [(''A'', 3 / 5), (''B'', 2 / 5)]) \<and>
   \<bar>sum_list (map snd [(''A'', 3 / 5 :: real), (''B'', 2 / 5)])
      - sum_list (res_x (converged [3 / 5, 2 / 5]))\<bar>
     \<le> real (length (columns frame_AB)) * (3 / 20000)"
proof -
  have rp: "rounded_portfolio [''A'', ''B''] [3 / 5, 2 / 5] = [(''A'', 3 / 5), (''B'', 2 / 5)]"
    by (simp add: rounded_portfolio_distinct np_round4_def rint_def Let_def)
  show ?thesis
    using C1_returned_weights
      [of "Finite 1" "3 / 5" "example_lib frame_AB (converged [3 / 5, 2 / 5])" "''csv''"
        frame_AB "converged [3 / 5, 2 / 5]" "[(''A'', 3 / 5), (''B'', 2 / 5)]"]
    by (simp add: frame_AB_facts converged_def rp)
qed

end
